theory Spec2Isabelle
  imports Complex_Main "HOL-Library.Log_Nat"
begin

section \<open>Python values and the library functions the pipeline calls\<close>

text \<open>
  Vendor output is a loosely typed mapping (\<^verbatim>\<open>Dict[str, Any]\<close>), and a field's
  \<^verbatim>\<open>value\<close> is typed \<^verbatim>\<open>Any\<close>, so the values the pipeline handles are modelled
  by one datatype. A dictionary is an association list with string keys, read with
  \<open>map_of\<close>. A Python float is modelled by the real number it stands for, and every
  operation on floats that the pipeline performs rounds its exact result to the nearest
  double (see the section on floating point); infinities and NaN are outside the model, and the
  range of the floats is there where Python raises on leaving it (\<^verbatim>\<open>float\<close> of an
  integer). A string is the list of its characters when it is ASCII, and of the bytes of
  its UTF-8 encoding otherwise.
\<close>

datatype pyval =
    PNone
  | PBool bool
  | PInt int
  | PFloat real
  | PStr string
  | PList "pyval list"
  | PDict "(string \<times> pyval) list"
  | PDatetime int

datatype py_error =
    TypeError
  | ValueError
  | AttributeError
  | KeyError
  | OverflowError
  | ValidationError

text \<open>
  What the pipeline uses of the Python library and of pydantic, and what is not in the
  repository: how \<^verbatim>\<open>float\<close> reads a string, how \<^verbatim>\<open>str\<close> prints a value that is
  not a string, what \<^verbatim>\<open>str.upper\<close> makes of a string that is not ASCII, which
  strings \<^verbatim>\<open>datetime.fromisoformat\<close> and
  \<^verbatim>\<open>datetime.strptime(_, "%Y-%m-%d")\<close> accept, and which values pydantic converts
  for a \<^verbatim>\<open>float\<close> or \<^verbatim>\<open>str\<close> field when they are not of that type already,
  and which names pydantic's \<^verbatim>\<open>BaseModel\<close> gives every model object as attributes.
  Every definition below takes them as the parameter \<open>L\<close>.
\<close>

record py_lib =
  float_of_str :: "string \<Rightarrow> real option"
  str_of :: "pyval \<Rightarrow> string"
  str_upper :: "string \<Rightarrow> string"
  fromisoformat_ok :: "string \<Rightarrow> bool"
  strptime_ymd_ok :: "string \<Rightarrow> bool"
  coerce_float :: "pyval \<Rightarrow> real option"
  coerce_str :: "pyval \<Rightarrow> string option"
  model_attr :: "string \<Rightarrow> bool"

definition bind_err :: "'e + 'a \<Rightarrow> ('a \<Rightarrow> 'e + 'b) \<Rightarrow> 'e + 'b" where
  "bind_err m f = (case m of Inl e \<Rightarrow> Inl e | Inr x \<Rightarrow> f x)"

section \<open>Floating point\<close>

text \<open>
  Python's \<^verbatim>\<open>float\<close> is the IEEE 754 double: 53 significant bits, exponents from
  -1022 to 1023, results rounded to the nearest double and to the even one of two
  nearest. \<open>pow2 e\<close> is \<open>2\<close> to the power \<open>e\<close>; \<open>binade x\<close>, for a positive \<open>x\<close>, is
  the exponent \<open>e\<close> with \<open>pow2 e \<le> x < pow2 (e + 1)\<close>; the doubles of that binade are
  the multiples of \<open>pow2 (e - 52)\<close>, and those under \<open>pow2 (- 1022)\<close> the multiples of
  \<open>pow2 (- 1074)\<close>. \<open>round_double x\<close> is the double nearest to \<open>x\<close>: it is the
  value of a decimal literal of the source (\<^verbatim>\<open>0.01\<close>, \<^verbatim>\<open>0.7\<close>), of \<^verbatim>\<open>float\<close> of an
  integer, and of a sum, difference or quotient of two doubles. A result beyond the
  largest double is infinite in Python, which is outside the model.
\<close>

definition pow2 :: "int \<Rightarrow> real" where
  "pow2 e = (if 0 \<le> e then 2 ^ nat e else 1 / 2 ^ nat (- e))"

definition round_half_even :: "real \<Rightarrow> int" where
  "round_half_even x =
     (let f = \<lfloor>x\<rfloor>; d = x - of_int f
      in if d < 1 / 2 then f else if 1 / 2 < d then f + 1 else if even f then f else f + 1)"

definition binade :: "real \<Rightarrow> int" where
  "binade x = (if 1 \<le> x then bitlen \<lfloor>x\<rfloor> - 1 else - bitlen (\<lceil>1 / x\<rceil> - 1))"

definition round_double :: "real \<Rightarrow> real" where
  "round_double x =
     (if x = 0 then 0
      else (let u = pow2 (max (binade \<bar>x\<bar>) (- 1022) - 52)
            in sgn x * of_int (round_half_even (\<bar>x\<bar> / u)) * u))"

text \<open>\<^verbatim>\<open>x + y\<close>, \<^verbatim>\<open>x - y\<close> and \<^verbatim>\<open>x / y\<close> on floats.\<close>

definition fl_add :: "real \<Rightarrow> real \<Rightarrow> real" where
  "fl_add x y = round_double (x + y)"

definition fl_sub :: "real \<Rightarrow> real \<Rightarrow> real" where
  "fl_sub x y = round_double (x - y)"

definition fl_div :: "real \<Rightarrow> real \<Rightarrow> real" where
  "fl_div x y = round_double (x / y)"

text \<open>\<^verbatim>\<open>sum(xs)\<close> on a list of floats: the elements are added from left to right,
  starting from 0, and every addition rounds.\<close>

definition py_sum :: "real list \<Rightarrow> real" where
  "py_sum xs = foldl fl_add 0 xs"

text \<open>The number that \<^verbatim>\<open>f"{x:.2f}"\<close> prints: \<open>x\<close> rounded to two decimals, to the
  even one of two nearest.\<close>

definition format_2f :: "real \<Rightarrow> real" where
  "format_2f x = of_int (round_half_even (x * 100)) / 100"

section \<open>Values, conversions and containers\<close>

text \<open>Truth value of a Python value (\<^verbatim>\<open>if v\<close>, \<^verbatim>\<open>a or b\<close>).\<close>

fun truthy :: "pyval \<Rightarrow> bool" where
  "truthy PNone = False"
| "truthy (PBool b) = b"
| "truthy (PInt i) = (i \<noteq> 0)"
| "truthy (PFloat r) = (r \<noteq> 0)"
| "truthy (PStr s) = (s \<noteq> [])"
| "truthy (PList xs) = (xs \<noteq> [])"
| "truthy (PDict d) = (d \<noteq> [])"
| "truthy (PDatetime t) = True"

text \<open>The integers that round to a finite double: those of absolute value under
  \<open>2 ^ 1024 - 2 ^ 970\<close>, half way between the largest double and \<open>2 ^ 1024\<close>.\<close>

definition float_int_bound :: real where
  "float_int_bound = 2 ^ 1024 - 2 ^ 970"

text \<open>\<^verbatim>\<open>float(v)\<close>: the double nearest to an integer, and what the library reads
  in a string; ValueError on a string that is no number, OverflowError on an integer
  beyond the floats, TypeError on a value that is neither a number nor a string.\<close>

fun py_float :: "py_lib \<Rightarrow> pyval \<Rightarrow> py_error + real" where
  "py_float L (PFloat r) = Inr r"
| "py_float L (PInt i) =
     (if \<bar>real_of_int i\<bar> < float_int_bound then Inr (round_double (real_of_int i))
      else Inl OverflowError)"
| "py_float L (PBool b) = Inr (if b then 1 else 0)"
| "py_float L (PStr s) = (case float_of_str L s of Some r \<Rightarrow> Inr r | None \<Rightarrow> Inl ValueError)"
| "py_float L PNone = Inl TypeError"
| "py_float L (PList xs) = Inl TypeError"
| "py_float L (PDict d) = Inl TypeError"
| "py_float L (PDatetime t) = Inl TypeError"

text \<open>\<^verbatim>\<open>str(v)\<close>.\<close>

definition py_str :: "py_lib \<Rightarrow> pyval \<Rightarrow> string" where
  "py_str L v = (case v of PStr s \<Rightarrow> s | _ \<Rightarrow> str_of L v)"

text \<open>\<^verbatim>\<open>s.upper()\<close>. On an ASCII string it maps the 26 small letters to the capital
  ones and leaves every other character. A string with a character beyond ASCII (a byte
  of 128 or more) goes to the library: Unicode has letters whose capital is an ASCII
  letter, and letters whose capital is several characters.\<close>

definition upper_char :: "char \<Rightarrow> char" where
  "upper_char c =
     (case map_of (zip ''abcdefghijklmnopqrstuvwxyz'' ''ABCDEFGHIJKLMNOPQRSTUVWXYZ'') c of
        Some u \<Rightarrow> u
      | None \<Rightarrow> c)"

definition is_ascii :: "string \<Rightarrow> bool" where
  "is_ascii s = list_all (\<lambda>c. \<not> digit7 c) s"

definition upper :: "py_lib \<Rightarrow> string \<Rightarrow> string" where
  "upper L s = (if is_ascii s then map upper_char s else str_upper L s)"

text \<open>\<^verbatim>\<open>sep.join(xs)\<close>.\<close>

fun join :: "string \<Rightarrow> string list \<Rightarrow> string" where
  "join sep [] = []"
| "join sep [x] = x"
| "join sep (x # y # ys) = x @ sep @ join sep (y # ys)"

text \<open>\<^verbatim>\<open>s.replace("Z", "+00:00")\<close>.\<close>

definition replace_Z :: "string \<Rightarrow> string" where
  "replace_Z s = concat (map (\<lambda>c. if c = CHR ''Z'' then ''+00:00'' else [c]) s)"

text \<open>\<^verbatim>\<open>d.get(k, default)\<close> on a dictionary, and on any value (only a dictionary has
  the method).\<close>

definition dict_get :: "(string \<times> pyval) list \<Rightarrow> string \<Rightarrow> pyval \<Rightarrow> pyval" where
  "dict_get d k dflt = (case map_of d k of Some v \<Rightarrow> v | None \<Rightarrow> dflt)"

definition py_get :: "pyval \<Rightarrow> string \<Rightarrow> pyval \<Rightarrow> py_error + pyval" where
  "py_get v k dflt = (case v of PDict d \<Rightarrow> Inr (dict_get d k dflt) | _ \<Rightarrow> Inl AttributeError)"

text \<open>\<^verbatim>\<open>k in v\<close> for a string \<open>k\<close>: a key of a dictionary, an element of a list, a
  substring of a string; TypeError on a value that is no container.\<close>

fun is_prefix :: "string \<Rightarrow> string \<Rightarrow> bool" where
  "is_prefix [] s = True"
| "is_prefix (c # cs) [] = False"
| "is_prefix (c # cs) (d # ds) = (c = d \<and> is_prefix cs ds)"

fun is_substring :: "string \<Rightarrow> string \<Rightarrow> bool" where
  "is_substring k [] = (k = [])"
| "is_substring k (c # cs) = (is_prefix k (c # cs) \<or> is_substring k cs)"

definition py_contains :: "pyval \<Rightarrow> string \<Rightarrow> py_error + bool" where
  "py_contains v k =
     (case v of
        PDict d \<Rightarrow> Inr (map_of d k \<noteq> None)
      | PList xs \<Rightarrow> Inr (PStr k \<in> set xs)
      | PStr s \<Rightarrow> Inr (is_substring k s)
      | _ \<Rightarrow> Inl TypeError)"

text \<open>\<^verbatim>\<open>v[k]\<close> for a string \<open>k\<close>: KeyError on a dictionary without the key,
  TypeError on every other value.\<close>

definition py_getitem :: "pyval \<Rightarrow> string \<Rightarrow> py_error + pyval" where
  "py_getitem v k =
     (case v of
        PDict d \<Rightarrow> (case map_of d k of Some x \<Rightarrow> Inr x | None \<Rightarrow> Inl KeyError)
      | _ \<Rightarrow> Inl TypeError)"

text \<open>\<^verbatim>\<open>for item in v\<close>: the elements of a list, the keys of a dictionary, the
  characters of a string; TypeError on every other value.\<close>

definition py_iter :: "pyval \<Rightarrow> py_error + pyval list" where
  "py_iter v =
     (case v of
        PList xs \<Rightarrow> Inr xs
      | PDict d \<Rightarrow> Inr (map (\<lambda>kv. PStr (fst kv)) d)
      | PStr s \<Rightarrow> Inr (map (\<lambda>c. PStr [c]) s)
      | _ \<Rightarrow> Inl TypeError)"

text \<open>pydantic's validation of a \<^verbatim>\<open>float\<close> field and of a \<^verbatim>\<open>str\<close> field.\<close>

definition pyd_float :: "py_lib \<Rightarrow> pyval \<Rightarrow> real option" where
  "pyd_float L v =
     (case v of
        PFloat r \<Rightarrow> Some r
      | PInt i \<Rightarrow>
          if \<bar>real_of_int i\<bar> < float_int_bound then Some (round_double (real_of_int i))
          else coerce_float L v
      | _ \<Rightarrow> coerce_float L v)"

definition pyd_str :: "py_lib \<Rightarrow> pyval \<Rightarrow> string option" where
  "pyd_str L v = (case v of PStr s \<Rightarrow> Some s | _ \<Rightarrow> coerce_str L v)"

definition pyd_opt_float :: "py_lib \<Rightarrow> pyval \<Rightarrow> py_error + real option" where
  "pyd_opt_float L v =
     (case v of
        PNone \<Rightarrow> Inr None
      | _ \<Rightarrow> (case pyd_float L v of Some r \<Rightarrow> Inr (Some r) | None \<Rightarrow> Inl ValidationError))"

section \<open>The canonical schema (schema.py)\<close>

record evidence =
  page_number :: int
  bbox :: "(string \<times> real) list option"
  text_anchor :: "string option"

record field_audit =
  fa_value :: pyval
  confidence :: real
  evidence :: "evidence option"
  pipeline_version :: string
  vendor_version :: string
  vendor_field_name :: "string option"

record line_item =
  description :: string
  quantity :: "real option"
  unit_price :: "real option"
  amount :: real
  audit :: field_audit

record invoice_schema =
  invoice_number :: "field_audit option"
  invoice_date :: "field_audit option"
  supplier_name :: "field_audit option"
  supplier_id :: "field_audit option"
  currency :: "field_audit option"
  subtotal :: "field_audit option"
  tax :: "field_audit option"
  total_fld :: "field_audit option"
  po_number :: "field_audit option"
  line_items :: "line_item list option"
  doc_id :: string
  extraction_timestamp :: int
  vendor_name :: string
  raw_vendor_output :: "(string \<times> pyval) list"

text \<open>
  The messages of the validator. Each constructor stands for one of its format strings
  and holds the values the string prints. \<open>Reconciliation_failed\<close> holds the subtotal,
  the tax, their sum, the total, the difference as \<^verbatim>\<open>{difference:.2f}\<close> prints it, and
  the tolerance.
\<close>

datatype message =
    Missing_required_fields "string list"
  | Invalid_date_format string
  | Date_wrong_type pyval
  | Unrecognized_currency string
  | Reconciliation_failed real real real real real real
  | High_total_amount real real
  | PO_number_missing

record validation_result =
  passed :: bool
  checks :: "(string \<times> bool) list"
  errors :: "message list"
  warnings :: "message list"

record routing_decision =
  outcome :: string
  reason_codes :: "string list"
  confidence_score :: real

text \<open>
  The constructors run pydantic's validation. \<^verbatim>\<open>FieldAudit(...)\<close> converts the
  confidence to a float and checks \<^verbatim>\<open>Field(ge=0.0, le=1.0)\<close>;
  \<^verbatim>\<open>RoutingDecision(...)\<close> checks the same bounds on the score.
\<close>

definition FieldAudit ::
  "py_lib \<Rightarrow> pyval \<Rightarrow> pyval \<Rightarrow> evidence option \<Rightarrow> string \<Rightarrow> string \<Rightarrow> string option
     \<Rightarrow> py_error + field_audit" where
  "FieldAudit L v conf ev pv vv vfn =
     (case pyd_float L conf of
        None \<Rightarrow> Inl ValidationError
      | Some c \<Rightarrow>
          if 0 \<le> c \<and> c \<le> 1
          then Inr \<lparr>fa_value = v, confidence = c, evidence = ev, pipeline_version = pv,
                     vendor_version = vv, vendor_field_name = vfn\<rparr>
          else Inl ValidationError)"

definition LineItem ::
  "py_lib \<Rightarrow> pyval \<Rightarrow> pyval \<Rightarrow> pyval \<Rightarrow> pyval \<Rightarrow> field_audit \<Rightarrow> py_error + line_item" where
  "LineItem L desc qty price amt aud =
     (case pyd_str L desc of
        None \<Rightarrow> Inl ValidationError
      | Some d \<Rightarrow>
          bind_err (pyd_opt_float L qty) (\<lambda>q.
          bind_err (pyd_opt_float L price) (\<lambda>p.
            (case pyd_float L amt of
               None \<Rightarrow> Inl ValidationError
             | Some a \<Rightarrow>
                 Inr \<lparr>description = d, quantity = q, unit_price = p, amount = a, audit = aud\<rparr>))))"

definition RoutingDecision :: "string \<Rightarrow> string list \<Rightarrow> real \<Rightarrow> py_error + routing_decision" where
  "RoutingDecision oc codes score =
     (if 0 \<le> score \<and> score \<le> 1
      then Inr \<lparr>outcome = oc, reason_codes = codes, confidence_score = score\<rparr>
      else Inl ValidationError)"

section \<open>The normalizer (normalizer.py)\<close>

text \<open>The evidence every field gets: \<^verbatim>\<open>Evidence(page_number=1)\<close>.\<close>

definition page1 :: evidence where
  "page1 = \<lparr>page_number = 1, bbox = None, text_anchor = None\<rparr>"

text \<open>
  \<^verbatim>\<open>create_field_audit\<close> of \<^verbatim>\<open>_normalize_vendor_a\<close>: the entry \<open>field_name\<close> of
  \<open>flds\<close> (the source's \<^verbatim>\<open>fields\<close>), with its value as the vendor gives it.
  \<open>pv\<close> is the normalizer's pipeline version, \<open>vv\<close> the vendor version.
\<close>

definition create_field_audit_a ::
  "py_lib \<Rightarrow> string \<Rightarrow> string \<Rightarrow> pyval \<Rightarrow> string \<Rightarrow> string option
     \<Rightarrow> py_error + field_audit option" where
  "create_field_audit_a L pv vv flds field_name vfn =
     bind_err (py_contains flds field_name) (\<lambda>present.
       if \<not> present then Inr None
       else
         bind_err (py_getitem flds field_name) (\<lambda>field_data.
         bind_err (py_get field_data ''value'' PNone) (\<lambda>v.
         bind_err (py_get field_data ''confidence'' (PFloat 0)) (\<lambda>conf.
         bind_err
           (FieldAudit L v conf (Some page1) pv vv
              (Some (case vfn of
                       None \<Rightarrow> field_name
                     | Some n \<Rightarrow> if n \<noteq> [] then n else field_name)))
           (\<lambda>fa. Inr (Some fa))))))"

text \<open>One line item of vendor A, and the loop over the items.\<close>

definition line_item_a :: "py_lib \<Rightarrow> string \<Rightarrow> string \<Rightarrow> pyval \<Rightarrow> py_error + line_item" where
  "line_item_a L pv vv item =
     bind_err (py_get item ''description'' (PStr [])) (\<lambda>desc.
     bind_err (py_get item ''quantity'' PNone) (\<lambda>qty.
     bind_err (py_get item ''unit_price'' PNone) (\<lambda>price.
     bind_err (py_get item ''amount'' (PFloat 0)) (\<lambda>amt.
     bind_err (py_get item ''confidence'' (PFloat 0)) (\<lambda>conf.
     bind_err (FieldAudit L item conf (Some page1) pv vv (Some ''line_item'')) (\<lambda>aud.
       LineItem L desc qty price amt aud))))))"

fun map_err :: "('a \<Rightarrow> 'e + 'b) \<Rightarrow> 'a list \<Rightarrow> 'e + 'b list" where
  "map_err f [] = Inr []"
| "map_err f (x # xs) = bind_err (f x) (\<lambda>y. bind_err (map_err f xs) (\<lambda>ys. Inr (y # ys)))"

definition line_items_a ::
  "py_lib \<Rightarrow> string \<Rightarrow> string \<Rightarrow> (string \<times> pyval) list \<Rightarrow> py_error + line_item list option" where
  "line_items_a L pv vv output =
     (case map_of output ''line_items'' of
        None \<Rightarrow> Inr None
      | Some v \<Rightarrow>
          bind_err (py_iter v) (\<lambda>items.
          bind_err (map_err (line_item_a L pv vv) items) (\<lambda>lis. Inr (Some lis))))"

text \<open>\<^verbatim>\<open>InvoiceSchema(...)\<close>: pydantic checks that \<open>doc_id\<close> is a string.\<close>

definition InvoiceSchema ::
  "py_lib \<Rightarrow> pyval \<Rightarrow> int \<Rightarrow> string \<Rightarrow> (string \<times> pyval) list \<Rightarrow> (string \<Rightarrow> field_audit option)
     \<Rightarrow> line_item list option \<Rightarrow> py_error + invoice_schema" where
  "InvoiceSchema L did now vn output slot lis =
     (case pyd_str L did of
        None \<Rightarrow> Inl ValidationError
      | Some d \<Rightarrow>
          Inr \<lparr>invoice_number = slot ''invoice_number'',
               invoice_date = slot ''invoice_date'',
               supplier_name = slot ''supplier_name'',
               supplier_id = slot ''supplier_id'',
               currency = slot ''currency'',
               subtotal = slot ''subtotal'',
               tax = slot ''tax'',
               total_fld = slot ''total'',
               po_number = slot ''po_number'',
               line_items = lis,
               doc_id = d,
               extraction_timestamp = now,
               vendor_name = vn,
               raw_vendor_output = output\<rparr>)"

text \<open>The canonical fields, in the order in which \<^verbatim>\<open>_normalize_vendor_a\<close> builds
  them.\<close>

definition canonical_fields :: "string list" where
  "canonical_fields =
     [''invoice_number'', ''invoice_date'', ''supplier_name'', ''supplier_id'', ''currency'',
      ''subtotal'', ''tax'', ''total'', ''po_number'']"

fun audits_a ::
  "py_lib \<Rightarrow> string \<Rightarrow> string \<Rightarrow> pyval \<Rightarrow> string list \<Rightarrow> py_error + (string \<times> field_audit) list" where
  "audits_a L pv vv flds [] = Inr []"
| "audits_a L pv vv flds (n # ns) =
     bind_err (create_field_audit_a L pv vv flds n None) (\<lambda>a.
     bind_err (audits_a L pv vv flds ns) (\<lambda>m.
       Inr (case a of Some fa \<Rightarrow> (n, fa) # m | None \<Rightarrow> m)))"

definition normalize_vendor_a ::
  "py_lib \<Rightarrow> string \<Rightarrow> int \<Rightarrow> (string \<times> pyval) list \<Rightarrow> pyval \<Rightarrow> string \<Rightarrow> string
     \<Rightarrow> py_error + invoice_schema" where
  "normalize_vendor_a L pv now output did vn vv =
     (let flds = dict_get output ''fields'' (PDict []) in
      bind_err (line_items_a L pv vv output) (\<lambda>lis.
      bind_err (audits_a L pv vv flds canonical_fields) (\<lambda>m.
        InvoiceSchema L did now vn output (map_of m) lis)))"

text \<open>
  \<^verbatim>\<open>create_field_audit\<close> of \<^verbatim>\<open>_normalize_vendor_b\<close>: the entry \<open>vendor_field\<close>
  of \<open>financial\<close>; the value of a numeric canonical field goes through \<^verbatim>\<open>float\<close>,
  and the field is dropped when that raises ValueError or TypeError (another error is not
  caught).
\<close>

definition create_field_audit_b ::
  "py_lib \<Rightarrow> string \<Rightarrow> string \<Rightarrow> pyval \<Rightarrow> string \<Rightarrow> string \<Rightarrow> py_error + field_audit option" where
  "create_field_audit_b L pv vv financial vendor_field canonical_field =
     bind_err (py_contains financial vendor_field) (\<lambda>present.
       if \<not> present then Inr None
       else
         bind_err (py_getitem financial vendor_field) (\<lambda>field_data.
         bind_err (py_get field_data ''text'' PNone) (\<lambda>v.
         bind_err (py_get field_data ''score'' (PFloat 0)) (\<lambda>conf.
           if canonical_field \<in> set [''subtotal'', ''tax'', ''total'']
           then
             (case py_float L v of
                Inl e \<Rightarrow> if e = ValueError \<or> e = TypeError then Inr None else Inl e
              | Inr r \<Rightarrow>
                  bind_err (FieldAudit L (PFloat r) conf (Some page1) pv vv (Some vendor_field))
                    (\<lambda>fa. Inr (Some fa)))
           else
             bind_err (FieldAudit L v conf (Some page1) pv vv (Some vendor_field))
               (\<lambda>fa. Inr (Some fa))))))"

definition field_mapping :: "(string \<times> string) list" where
  "field_mapping =
     [(''invoice_num'', ''invoice_number''),
      (''date'', ''invoice_date''),
      (''vendor_name'', ''supplier_name''),
      (''vendor_id'', ''supplier_id''),
      (''currency_code'', ''currency''),
      (''amount_before_tax'', ''subtotal''),
      (''tax_amount'', ''tax''),
      (''amount_due'', ''total''),
      (''purchase_order'', ''po_number'')]"

fun audits_b ::
  "py_lib \<Rightarrow> string \<Rightarrow> string \<Rightarrow> pyval \<Rightarrow> (string \<times> string) list
     \<Rightarrow> py_error + (string \<times> field_audit) list" where
  "audits_b L pv vv financial [] = Inr []"
| "audits_b L pv vv financial ((vf, cf) # ns) =
     bind_err (create_field_audit_b L pv vv financial vf cf) (\<lambda>a.
     bind_err (audits_b L pv vv financial ns) (\<lambda>m.
       Inr (case a of Some fa \<Rightarrow> (cf, fa) # m | None \<Rightarrow> m)))"

definition line_item_b :: "py_lib \<Rightarrow> string \<Rightarrow> string \<Rightarrow> pyval \<Rightarrow> py_error + line_item" where
  "line_item_b L pv vv item =
     bind_err (py_get item ''desc'' (PStr [])) (\<lambda>desc.
     bind_err (py_get item ''qty'' PNone) (\<lambda>qty.
     bind_err (py_get item ''price'' PNone) (\<lambda>price.
     bind_err (py_get item ''line_total'' (PFloat 0)) (\<lambda>amt.
     bind_err (py_get item ''score'' (PFloat 0)) (\<lambda>conf.
     bind_err (FieldAudit L item conf (Some page1) pv vv (Some ''line_item'')) (\<lambda>aud.
       LineItem L desc qty price amt aud))))))"

definition line_items_b ::
  "py_lib \<Rightarrow> string \<Rightarrow> string \<Rightarrow> (string \<times> pyval) list \<Rightarrow> py_error + line_item list option" where
  "line_items_b L pv vv output =
     bind_err (py_get (dict_get output ''extracted_data'' (PDict [])) ''items'' (PList [])) (\<lambda>v.
       if \<not> truthy v then Inr None
       else
         bind_err (py_iter v) (\<lambda>items.
         bind_err (map_err (line_item_b L pv vv) items) (\<lambda>lis. Inr (Some lis))))"

definition normalize_vendor_b ::
  "py_lib \<Rightarrow> string \<Rightarrow> int \<Rightarrow> (string \<times> pyval) list \<Rightarrow> pyval \<Rightarrow> string \<Rightarrow> string
     \<Rightarrow> py_error + invoice_schema" where
  "normalize_vendor_b L pv now output did vn vv =
     bind_err (py_get (dict_get output ''extracted_data'' (PDict [])) ''financial'' (PDict []))
       (\<lambda>financial.
     bind_err (audits_b L pv vv financial field_mapping) (\<lambda>m.
     bind_err (line_items_b L pv vv output) (\<lambda>lis.
       InvoiceSchema L did now vn output (map_of m) lis)))"

text \<open>
  \<^verbatim>\<open>Normalizer.normalize\<close>. \<open>pv\<close> is the normalizer's \<^verbatim>\<open>pipeline_version\<close>, and
  \<open>now\<close> the value \<^verbatim>\<open>datetime.now()\<close> returns during the call. The document
  id is \<^verbatim>\<open>vendor_output.get("document_id") or vendor_output.get("id", "unknown")\<close>.
\<close>

definition document_id :: "(string \<times> pyval) list \<Rightarrow> pyval" where
  "document_id vendor_output =
     (let a = dict_get vendor_output ''document_id'' PNone
      in if truthy a then a else dict_get vendor_output ''id'' (PStr ''unknown''))"

definition normalize ::
  "py_lib \<Rightarrow> string \<Rightarrow> int \<Rightarrow> (string \<times> pyval) list \<Rightarrow> string \<Rightarrow> string
     \<Rightarrow> py_error + invoice_schema" where
  "normalize L pv now vendor_output vn vv =
     (let did = document_id vendor_output
      in if vn = ''vendor_a'' then normalize_vendor_a L pv now vendor_output did vn vv
         else if vn = ''vendor_b'' then normalize_vendor_b L pv now vendor_output did vn vv
         else normalize_vendor_a L pv now vendor_output did vn vv)"

section \<open>The validator (validator.py)\<close>

record validator =
  currency_tolerance :: "(string \<times> real) list"
  high_total_threshold :: real
  low_confidence_threshold :: real
  required_fields :: "string list"

text \<open>\<^verbatim>\<open>Validator.__init__\<close>: a tolerance map or a list of required fields that is
  missing or empty is replaced by the default. The literal \<^verbatim>\<open>0.01\<close> is the double
  nearest to 1/100, and the default \<^verbatim>\<open>0.7\<close> of the confidence threshold the double
  nearest to 7/10; 100000.0 is a double.\<close>

definition Validator ::
  "(string \<times> real) list option \<Rightarrow> real \<Rightarrow> real \<Rightarrow> string list option \<Rightarrow> validator" where
  "Validator tol high low req =
     \<lparr>currency_tolerance =
        (case tol of
           Some t \<Rightarrow>
             if t \<noteq> [] then t
             else [(''USD'', round_double 0.01), (''EUR'', round_double 0.01),
                   (''GBP'', round_double 0.01)]
         | None \<Rightarrow>
             [(''USD'', round_double 0.01), (''EUR'', round_double 0.01),
              (''GBP'', round_double 0.01)]),
      high_total_threshold = high,
      low_confidence_threshold = low,
      required_fields =
        (case req of
           Some r \<Rightarrow>
             if r \<noteq> [] then r
             else [''invoice_number'', ''invoice_date'', ''supplier_name'', ''total'']
         | None \<Rightarrow> [''invoice_number'', ''invoice_date'', ''supplier_name'', ''total''])\<rparr>"

definition default_validator :: validator where
  "default_validator = Validator None 100000.0 (round_double 0.7) None"

text \<open>
  \<^verbatim>\<open>getattr(invoice, name, None)\<close>: one of the nine slots (a \<^verbatim>\<open>FieldAudit\<close> or
  None), another attribute of the record (an object that is no \<^verbatim>\<open>FieldAudit\<close>), or
  None for a name the record does not have.
\<close>

datatype attr = AttrAudit field_audit | AttrNone | AttrOther

definition of_slot :: "field_audit option \<Rightarrow> attr" where
  "of_slot s = (case s of Some fa \<Rightarrow> AttrAudit fa | None \<Rightarrow> AttrNone)"

definition getattr :: "py_lib \<Rightarrow> invoice_schema \<Rightarrow> string \<Rightarrow> attr" where
  "getattr L invoice name =
     (if name = ''invoice_number'' then of_slot (invoice_number invoice)
      else if name = ''invoice_date'' then of_slot (invoice_date invoice)
      else if name = ''supplier_name'' then of_slot (supplier_name invoice)
      else if name = ''supplier_id'' then of_slot (supplier_id invoice)
      else if name = ''currency'' then of_slot (currency invoice)
      else if name = ''subtotal'' then of_slot (subtotal invoice)
      else if name = ''tax'' then of_slot (tax invoice)
      else if name = ''total'' then of_slot (total_fld invoice)
      else if name = ''po_number'' then of_slot (po_number invoice)
      else if name = ''line_items''
        then (case line_items invoice of None \<Rightarrow> AttrNone | Some lis \<Rightarrow> AttrOther)
      else if name \<in> set [''doc_id'', ''extraction_timestamp'', ''vendor_name'', ''raw_vendor_output'']
        then AttrOther
      else if model_attr L name then AttrOther
      else AttrNone)"

text \<open>
  The checks append to the list of errors or of warnings they are given: each takes the
  list and returns its boolean with the list as it leaves it. A check that calls
  \<^verbatim>\<open>float\<close> or reads \<^verbatim>\<open>.value\<close> can raise.
\<close>

fun missing_fields :: "py_lib \<Rightarrow> invoice_schema \<Rightarrow> string list \<Rightarrow> py_error + string list" where
  "missing_fields L invoice [] = Inr []"
| "missing_fields L invoice (f # fs) =
     (case getattr L invoice f of
        AttrNone \<Rightarrow> bind_err (missing_fields L invoice fs) (\<lambda>ms. Inr (f # ms))
      | AttrAudit fa \<Rightarrow>
          if fa_value fa = PNone
          then bind_err (missing_fields L invoice fs) (\<lambda>ms. Inr (f # ms))
          else missing_fields L invoice fs
      | AttrOther \<Rightarrow> Inl AttributeError)"

definition check_required_fields ::
  "py_lib \<Rightarrow> validator \<Rightarrow> invoice_schema \<Rightarrow> message list \<Rightarrow> py_error + bool \<times> message list" where
  "check_required_fields L V invoice errs =
     bind_err (missing_fields L invoice (required_fields V)) (\<lambda>missing.
       if missing \<noteq> [] then Inr (False, errs @ [Missing_required_fields missing])
       else Inr (True, errs))"

definition check_date_format ::
  "py_lib \<Rightarrow> invoice_schema \<Rightarrow> message list \<Rightarrow> bool \<times> message list" where
  "check_date_format L invoice errs =
     (case invoice_date invoice of
        None \<Rightarrow> (True, errs)
      | Some fa \<Rightarrow>
          (case fa_value fa of
             PNone \<Rightarrow> (True, errs)
           | PStr s \<Rightarrow>
               if fromisoformat_ok L (replace_Z s) then (True, errs)
               else if strptime_ymd_ok L s then (True, errs)
               else (False, errs @ [Invalid_date_format s])
           | PDatetime t \<Rightarrow> (True, errs)
           | _ \<Rightarrow> (False, errs @ [Date_wrong_type (fa_value fa)])))"

definition valid_currencies :: "string list" where
  "valid_currencies = [''USD'', ''EUR'', ''GBP'', ''CAD'', ''AUD'', ''JPY'', ''CNY'', ''INR'']"

definition check_currency ::
  "py_lib \<Rightarrow> invoice_schema \<Rightarrow> message list \<Rightarrow> bool \<times> message list" where
  "check_currency L invoice errs =
     (case currency invoice of
        None \<Rightarrow> (True, errs)
      | Some fa \<Rightarrow>
          if fa_value fa = PNone then (True, errs)
          else
            (let cur = upper L (py_str L (fa_value fa)) in
             if cur \<notin> set valid_currencies then (False, errs @ [Unrecognized_currency cur])
             else (True, errs)))"

text \<open>\<^verbatim>\<open>float(x.value) if x.value else 0.0\<close>.\<close>

definition float_or_zero :: "py_lib \<Rightarrow> pyval \<Rightarrow> py_error + real" where
  "float_or_zero L v = (if truthy v then py_float L v else Inr 0)"

definition reconciliation_currency :: "py_lib \<Rightarrow> invoice_schema \<Rightarrow> string" where
  "reconciliation_currency L invoice =
     (case currency invoice of
        None \<Rightarrow> ''USD''
      | Some fa \<Rightarrow> if truthy (fa_value fa) then upper L (py_str L (fa_value fa)) else ''USD'')"

text \<open>\<^verbatim>\<open>self.currency_tolerance.get(currency, 0.01)\<close>.\<close>

definition tolerance_for :: "validator \<Rightarrow> string \<Rightarrow> real" where
  "tolerance_for V cur =
     (case map_of (currency_tolerance V) cur of Some x \<Rightarrow> x | None \<Rightarrow> round_double 0.01)"

definition check_reconciliation ::
  "py_lib \<Rightarrow> validator \<Rightarrow> invoice_schema \<Rightarrow> message list \<Rightarrow> py_error + bool \<times> message list" where
  "check_reconciliation L V invoice errs =
     (case (subtotal invoice, tax invoice, total_fld invoice) of
        (Some s, Some t, Some tot) \<Rightarrow>
          bind_err (float_or_zero L (fa_value s)) (\<lambda>subtotal_v.
          bind_err (float_or_zero L (fa_value t)) (\<lambda>tax_v.
          bind_err (float_or_zero L (fa_value tot)) (\<lambda>total_v.
            (let cur = reconciliation_currency L invoice;
                 tolerance = tolerance_for V cur;
                 calculated_total = fl_add subtotal_v tax_v;
                 difference = \<bar>fl_sub calculated_total total_v\<bar>
             in if difference > tolerance
                then Inr (False,
                       errs @ [Reconciliation_failed subtotal_v tax_v calculated_total total_v
                                 (format_2f difference) tolerance])
                else Inr (True, errs)))))
      | _ \<Rightarrow> Inr (True, errs))"

definition check_total_threshold ::
  "py_lib \<Rightarrow> validator \<Rightarrow> invoice_schema \<Rightarrow> message list \<Rightarrow> py_error + bool \<times> message list" where
  "check_total_threshold L V invoice warns =
     (case total_fld invoice of
        None \<Rightarrow> Inr (True, warns)
      | Some fa \<Rightarrow>
          if fa_value fa = PNone then Inr (True, warns)
          else
            bind_err (py_float L (fa_value fa)) (\<lambda>total_v.
              if total_v > high_total_threshold V
              then Inr (False, warns @ [High_total_amount total_v (high_total_threshold V)])
              else Inr (True, warns)))"

definition check_po_present :: "invoice_schema \<Rightarrow> message list \<Rightarrow> bool \<times> message list" where
  "check_po_present invoice warns =
     (case po_number invoice of
        None \<Rightarrow> (False, warns @ [PO_number_missing])
      | Some fa \<Rightarrow>
          if fa_value fa = PNone then (False, warns @ [PO_number_missing]) else (True, warns))"

text \<open>\<^verbatim>\<open>Validator.validate\<close>: the six checks in the source's order, the first four on
  the errors, the last two on the warnings.\<close>

definition validate :: "py_lib \<Rightarrow> validator \<Rightarrow> invoice_schema \<Rightarrow> py_error + validation_result" where
  "validate L V invoice =
     bind_err (check_required_fields L V invoice []) (\<lambda>r1.
       (let r2 = check_date_format L invoice (snd r1);
            r3 = check_currency L invoice (snd r2)
        in bind_err (check_reconciliation L V invoice (snd r3)) (\<lambda>r4.
           bind_err (check_total_threshold L V invoice []) (\<lambda>r5.
             (let r6 = check_po_present invoice (snd r5)
              in Inr \<lparr>passed = (length (snd r4) = 0),
                      checks =
                        [(''required_fields_present'', fst r1),
                         (''date_format_valid'', fst r2),
                         (''currency_valid'', fst r3),
                         (''reconciliation_pass'', fst r4),
                         (''total_within_threshold'', fst r5),
                         (''po_present'', fst r6)],
                      errors = snd r4,
                      warnings = snd r6\<rparr>)))))"

section \<open>The router (Validator.route)\<close>

definition critical_fields :: "string list" where
  "critical_fields = [''invoice_number'', ''total'', ''invoice_date'']"

text \<open>\<^verbatim>\<open>name in validation.checks and not validation.checks[name]\<close>.\<close>

definition check_failed :: "validation_result \<Rightarrow> string \<Rightarrow> bool" where
  "check_failed validation name =
     (case map_of (checks validation) name of Some b \<Rightarrow> \<not> b | None \<Rightarrow> False)"

text \<open>The first loop over the critical fields: those whose audit is there and has a
  confidence under the threshold.\<close>

fun low_confidence_fields ::
  "py_lib \<Rightarrow> validator \<Rightarrow> invoice_schema \<Rightarrow> string list \<Rightarrow> py_error + string list" where
  "low_confidence_fields L V invoice [] = Inr []"
| "low_confidence_fields L V invoice (f # fs) =
     (case getattr L invoice f of
        AttrNone \<Rightarrow> low_confidence_fields L V invoice fs
      | AttrAudit fa \<Rightarrow>
          if confidence fa < low_confidence_threshold V
          then bind_err (low_confidence_fields L V invoice fs) (\<lambda>low. Inr (f # low))
          else low_confidence_fields L V invoice fs
      | AttrOther \<Rightarrow> Inl AttributeError)"

text \<open>The second loop: the confidences of the critical fields whose audit is there.\<close>

fun confidence_scores ::
  "py_lib \<Rightarrow> invoice_schema \<Rightarrow> string list \<Rightarrow> py_error + real list" where
  "confidence_scores L invoice [] = Inr []"
| "confidence_scores L invoice (f # fs) =
     (case getattr L invoice f of
        AttrNone \<Rightarrow> confidence_scores L invoice fs
      | AttrAudit fa \<Rightarrow>
          bind_err (confidence_scores L invoice fs) (\<lambda>cs. Inr (confidence fa # cs))
      | AttrOther \<Rightarrow> Inl AttributeError)"

definition route ::
  "py_lib \<Rightarrow> validator \<Rightarrow> invoice_schema \<Rightarrow> validation_result \<Rightarrow> py_error + routing_decision" where
  "route L V invoice validation =
     (let codes1 =
        (if \<not> passed validation
         then [''VALIDATION_FAILED'']
              @ (if check_failed validation ''reconciliation_pass'' then [''TOTAL_MISMATCH'']
                 else [])
              @ (if check_failed validation ''required_fields_present''
                 then [''MISSING_REQUIRED_FIELDS''] else [])
         else [])
      in bind_err (low_confidence_fields L V invoice critical_fields) (\<lambda>low.
         (let codes2 =
            codes1
            @ (if low \<noteq> [] then [''LOW_CONFIDENCE'', ''LOW_CONF_'' @ upper L (join ''_'' low)]
               else []);
              codes3 =
                codes2
                @ (if check_failed validation ''total_within_threshold'' then [''HIGH_TOTAL'']
                   else []);
              codes4 =
                codes3 @ (if check_failed validation ''po_present'' then [''MISSING_PO''] else [])
          in bind_err (confidence_scores L invoice critical_fields) (\<lambda>scores.
             (let overall_confidence =
                (if scores \<noteq> [] then fl_div (py_sum scores) (real (length scores)) else 0)
              in RoutingDecision
                   (if length codes4 = 0 \<and> overall_confidence \<ge> low_confidence_threshold V
                    then ''AUTO_POST'' else ''NEEDS_REVIEW'')
                   codes4 overall_confidence)))))"

text \<open>The pipeline: normalize, validate, route.\<close>

definition pipeline ::
  "py_lib \<Rightarrow> string \<Rightarrow> validator \<Rightarrow> int \<Rightarrow> (string \<times> pyval) list \<Rightarrow> string \<Rightarrow> string
     \<Rightarrow> py_error + routing_decision" where
  "pipeline L pv V now vendor_output vn vv =
     bind_err (normalize L pv now vendor_output vn vv) (\<lambda>record.
     bind_err (validate L V record) (\<lambda>validation.
       route L V record validation))"

section \<open>The schema's invariant and the inputs on which nothing raises\<close>

text \<open>The invariant pydantic keeps on a record: every confidence lies in [0, 1].\<close>

definition audit_ok :: "field_audit \<Rightarrow> bool" where
  "audit_ok fa = (0 \<le> confidence fa \<and> confidence fa \<le> 1)"

definition slot_ok :: "field_audit option \<Rightarrow> bool" where
  "slot_ok s = (case s of None \<Rightarrow> True | Some fa \<Rightarrow> audit_ok fa)"

definition invoice_ok :: "invoice_schema \<Rightarrow> bool" where
  "invoice_ok invoice =
     (slot_ok (invoice_number invoice) \<and> slot_ok (invoice_date invoice)
      \<and> slot_ok (supplier_name invoice) \<and> slot_ok (supplier_id invoice)
      \<and> slot_ok (currency invoice) \<and> slot_ok (subtotal invoice) \<and> slot_ok (tax invoice)
      \<and> slot_ok (total_fld invoice) \<and> slot_ok (po_number invoice)
      \<and> (case line_items invoice of
            None \<Rightarrow> True
          | Some lis \<Rightarrow> list_all (\<lambda>li. audit_ok (audit li)) lis))"

text \<open>
  What the validator needs of a record to return: every required field names a slot (or
  nothing), and the values it hands to \<^verbatim>\<open>float\<close> convert. The reconciliation check
  converts the three values only when all three slots are there, and a value that is
  not truthy is not converted; the threshold check converts the total unless it is None.
\<close>

definition float_ready :: "py_lib \<Rightarrow> pyval \<Rightarrow> bool" where
  "float_ready L v = (case py_float L v of Inr r \<Rightarrow> True | Inl e \<Rightarrow> False)"

definition reconciliation_ready :: "py_lib \<Rightarrow> invoice_schema \<Rightarrow> bool" where
  "reconciliation_ready L invoice =
     (case (subtotal invoice, tax invoice, total_fld invoice) of
        (Some s, Some t, Some tot) \<Rightarrow>
          list_all (\<lambda>fa. \<not> truthy (fa_value fa) \<or> float_ready L (fa_value fa)) [s, t, tot]
      | _ \<Rightarrow> True)"

definition threshold_ready :: "py_lib \<Rightarrow> invoice_schema \<Rightarrow> bool" where
  "threshold_ready L invoice =
     (case total_fld invoice of
        None \<Rightarrow> True
      | Some fa \<Rightarrow> fa_value fa = PNone \<or> float_ready L (fa_value fa))"

definition validate_ready :: "py_lib \<Rightarrow> validator \<Rightarrow> invoice_schema \<Rightarrow> bool" where
  "validate_ready L V invoice =
     (list_all (\<lambda>f. getattr L invoice f \<noteq> AttrOther) (required_fields V)
      \<and> reconciliation_ready L invoice \<and> threshold_ready L invoice)"

text \<open>
  Well-formed vendor output. A confidence is a number pydantic accepts, within [0, 1];
  an entry of a field is a mapping with such a confidence; a line item is a mapping
  whose members pydantic accepts; the document id is a string pydantic accepts. In
  vendor A's shape the values of subtotal, tax and total reach the validator as they
  are, so they must be values \<^verbatim>\<open>float\<close> converts (or None, or for subtotal and tax a
  value that is not truthy). In vendor B's shape the text of a numeric field must not be
  an integer beyond the floats: \<^verbatim>\<open>float\<close> raises OverflowError on it, which the
  normalizer does not catch.
\<close>

definition wf_confidence :: "py_lib \<Rightarrow> pyval \<Rightarrow> bool" where
  "wf_confidence L v = (case pyd_float L v of Some c \<Rightarrow> 0 \<le> c \<and> c \<le> 1 | None \<Rightarrow> False)"

definition wf_opt_float :: "py_lib \<Rightarrow> pyval \<Rightarrow> bool" where
  "wf_opt_float L v = (v = PNone \<or> pyd_float L v \<noteq> None)"

definition wf_item ::
  "py_lib \<Rightarrow> string \<Rightarrow> string \<Rightarrow> string \<Rightarrow> string \<Rightarrow> string \<Rightarrow> pyval \<Rightarrow> bool" where
  "wf_item L kdesc kqty kprice kamt kconf item =
     (case item of
        PDict d \<Rightarrow>
          pyd_str L (dict_get d kdesc (PStr [])) \<noteq> None
          \<and> wf_opt_float L (dict_get d kqty PNone)
          \<and> wf_opt_float L (dict_get d kprice PNone)
          \<and> pyd_float L (dict_get d kamt (PFloat 0)) \<noteq> None
          \<and> wf_confidence L (dict_get d kconf (PFloat 0))
      | _ \<Rightarrow> False)"

definition wf_value_a :: "py_lib \<Rightarrow> string \<Rightarrow> pyval \<Rightarrow> bool" where
  "wf_value_a L name v =
     (if name = ''total'' then v = PNone \<or> float_ready L v
      else if name = ''subtotal'' \<or> name = ''tax'' then \<not> truthy v \<or> float_ready L v
      else True)"

definition wf_entry_a :: "py_lib \<Rightarrow> (string \<times> pyval) list \<Rightarrow> string \<Rightarrow> bool" where
  "wf_entry_a L d name =
     (case map_of d name of
        None \<Rightarrow> True
      | Some (PDict e) \<Rightarrow>
          wf_confidence L (dict_get e ''confidence'' (PFloat 0))
          \<and> wf_value_a L name (dict_get e ''value'' PNone)
      | Some _ \<Rightarrow> False)"

definition wf_vendor_a :: "py_lib \<Rightarrow> (string \<times> pyval) list \<Rightarrow> bool" where
  "wf_vendor_a L output =
     (pyd_str L (document_id output) \<noteq> None
      \<and> (case dict_get output ''fields'' (PDict []) of
            PDict d \<Rightarrow> list_all (wf_entry_a L d) canonical_fields
          | _ \<Rightarrow> False)
      \<and> (case map_of output ''line_items'' of
            None \<Rightarrow> True
          | Some (PList items) \<Rightarrow>
              list_all
                (wf_item L ''description'' ''quantity'' ''unit_price'' ''amount'' ''confidence'')
                items
          | Some _ \<Rightarrow> False))"

definition wf_entry_b :: "py_lib \<Rightarrow> (string \<times> pyval) list \<Rightarrow> string \<times> string \<Rightarrow> bool" where
  "wf_entry_b L d names =
     (case map_of d (fst names) of
        None \<Rightarrow> True
      | Some (PDict e) \<Rightarrow>
          wf_confidence L (dict_get e ''score'' (PFloat 0))
          \<and> (snd names \<in> set [''subtotal'', ''tax'', ''total'']
               \<longrightarrow> py_float L (dict_get e ''text'' PNone) \<noteq> Inl OverflowError)
      | Some _ \<Rightarrow> False)"

definition wf_vendor_b :: "py_lib \<Rightarrow> (string \<times> pyval) list \<Rightarrow> bool" where
  "wf_vendor_b L output =
     (pyd_str L (document_id output) \<noteq> None
      \<and> (case dict_get output ''extracted_data'' (PDict []) of
            PDict ed \<Rightarrow>
              (case dict_get ed ''financial'' (PDict []) of
                 PDict d \<Rightarrow> list_all (wf_entry_b L d) field_mapping
               | _ \<Rightarrow> False)
              \<and> (case dict_get ed ''items'' (PList []) of
                    PList items \<Rightarrow>
                      list_all (wf_item L ''desc'' ''qty'' ''price'' ''line_total'' ''score'') items
                  | v \<Rightarrow> \<not> truthy v)
          | _ \<Rightarrow> False))"

definition wf_vendor_output :: "py_lib \<Rightarrow> string \<Rightarrow> (string \<times> pyval) list \<Rightarrow> bool" where
  "wf_vendor_output L vn output =
     (if vn = ''vendor_b'' then wf_vendor_b L output else wf_vendor_a L output)"

text \<open>A required field is the name of a slot, or of nothing the record has.\<close>

definition wf_required :: "py_lib \<Rightarrow> validator \<Rightarrow> bool" where
  "wf_required L V =
     list_all
       (\<lambda>f. f \<in> set canonical_fields
            \<or> (f \<notin> set [''line_items'', ''doc_id'', ''extraction_timestamp'', ''vendor_name'',
                         ''raw_vendor_output'']
               \<and> \<not> model_attr L f))
       (required_fields V)"

section \<open>The router's results, stated on the record\<close>

text \<open>The slots of the critical fields, in the order the router reads them.\<close>

definition critical_slots :: "invoice_schema \<Rightarrow> (string \<times> field_audit option) list" where
  "critical_slots invoice =
     [(''invoice_number'', invoice_number invoice),
      (''total'', total_fld invoice),
      (''invoice_date'', invoice_date invoice)]"

text \<open>The confidences of the critical fields that are present. \<open>critical_mean\<close> is
  their arithmetic mean, in exact arithmetic, and 0 when none is present;
  \<open>critical_score\<close> is \<^verbatim>\<open>sum(...) / len(...)\<close> on floats: the sum of the router,
  rounded at every addition, and the quotient rounded once more.\<close>

definition present_confidences :: "invoice_schema \<Rightarrow> real list" where
  "present_confidences invoice =
     concat (map (\<lambda>ns. case snd ns of None \<Rightarrow> [] | Some fa \<Rightarrow> [confidence fa])
       (critical_slots invoice))"


definition critical_score :: "invoice_schema \<Rightarrow> real" where
  "critical_score invoice =
     (if present_confidences invoice = [] then 0
      else fl_div (py_sum (present_confidences invoice))
             (real (length (present_confidences invoice))))"

text \<open>The critical fields that are present with a confidence under the threshold.\<close>

definition present_below :: "validator \<Rightarrow> invoice_schema \<Rightarrow> string list" where
  "present_below V invoice =
     map fst
       (filter
          (\<lambda>ns. case snd ns of
                  None \<Rightarrow> False
                | Some fa \<Rightarrow> confidence fa < low_confidence_threshold V)
          (critical_slots invoice))"

text \<open>The reason codes of the router's steps 1, 2 and 3-4.\<close>

definition failure_codes :: "validation_result \<Rightarrow> string list" where
  "failure_codes validation =
     (if passed validation then []
      else ''VALIDATION_FAILED''
           # (if check_failed validation ''reconciliation_pass'' then [''TOTAL_MISMATCH''] else [])
           @ (if check_failed validation ''required_fields_present''
              then [''MISSING_REQUIRED_FIELDS''] else []))"

definition low_confidence_codes :: "py_lib \<Rightarrow> string list \<Rightarrow> string list" where
  "low_confidence_codes L low =
     (if low = [] then [] else [''LOW_CONFIDENCE'', ''LOW_CONF_'' @ upper L (join ''_'' low)])"

definition policy_codes :: "validation_result \<Rightarrow> string list" where
  "policy_codes validation =
     (if check_failed validation ''total_within_threshold'' then [''HIGH_TOTAL''] else [])
     @ (if check_failed validation ''po_present'' then [''MISSING_PO''] else [])"

text \<open>The text of a numeric field in vendor B's output: the \<^verbatim>\<open>text\<close> of the entry
  \<open>vf\<close> of \<^verbatim>\<open>extracted_data.financial\<close>, when that entry is a mapping.\<close>

definition vendor_b_text :: "(string \<times> pyval) list \<Rightarrow> string \<Rightarrow> pyval option" where
  "vendor_b_text output vf =
     (case dict_get output ''extracted_data'' (PDict []) of
        PDict ed \<Rightarrow>
          (case dict_get ed ''financial'' (PDict []) of
             PDict d \<Rightarrow>
               (case map_of d vf of
                  Some (PDict e) \<Rightarrow> Some (dict_get e ''text'' PNone)
                | _ \<Rightarrow> None)
           | _ \<Rightarrow> None)
      | _ \<Rightarrow> None)"

section \<open>An instance of the library, and example inputs\<close>

text \<open>
  An instance of \<open>py_lib\<close> for the examples. Its \<^verbatim>\<open>float\<close> reads unsigned decimal
  numerals (\<^verbatim>\<open>108\<close>, \<^verbatim>\<open>108.02\<close>) and rejects every other string; its date parsers
  accept the strings of the shape \<^verbatim>\<open>dddd-dd-dd\<close>; its pydantic converts nothing; its
  \<^verbatim>\<open>upper\<close> leaves the bytes beyond ASCII. Python accepts more strings than these; on
  the strings of the examples below, which are ASCII, the two agree. The numerals the
  examples read (\<^verbatim>\<open>108.00\<close>) are doubles, and so are the confidences of the examples:
  multiples of 1/8.
\<close>

definition digit_val :: "char \<Rightarrow> nat option" where
  "digit_val c = map_of (zip ''0123456789'' [0, 1, 2, 3, 4, 5, 6, 7, 8, 9]) c"

fun digits_val :: "nat \<Rightarrow> string \<Rightarrow> nat option" where
  "digits_val acc [] = Some acc"
| "digits_val acc (c # cs) =
     (case digit_val c of None \<Rightarrow> None | Some d \<Rightarrow> digits_val (10 * acc + d) cs)"

definition decimal_of_str :: "string \<Rightarrow> real option" where
  "decimal_of_str s =
     (let ip = takeWhile (\<lambda>c. c \<noteq> CHR ''.'') s;
          rest = dropWhile (\<lambda>c. c \<noteq> CHR ''.'') s;
          fp = (case rest of [] \<Rightarrow> [] | c # cs \<Rightarrow> cs)
      in if ip = [] \<or> (rest \<noteq> [] \<and> fp = []) then None
         else (case (digits_val 0 ip, digits_val 0 fp) of
                 (Some i, Some f) \<Rightarrow> Some (real i + real f / 10 ^ length fp)
               | _ \<Rightarrow> None))"

definition is_ymd :: "string \<Rightarrow> bool" where
  "is_ymd s = (map (\<lambda>c. if digit_val c \<noteq> None then CHR ''d'' else c) s = ''dddd-dd-dd'')"

definition example_lib :: py_lib where
  "example_lib =
     \<lparr>float_of_str = decimal_of_str,
      str_of = (\<lambda>v. case v of PNone \<Rightarrow> ''None'' | PBool b \<Rightarrow> (if b then ''True'' else ''False'')
                      | _ \<Rightarrow> ''?''),
      str_upper = map upper_char,
      fromisoformat_ok = is_ymd,
      strptime_ymd_ok = is_ymd,
      coerce_float = (\<lambda>v. None),
      coerce_str = (\<lambda>v. None),
      model_attr = (\<lambda>n. n \<in> set [''copy'', ''dict'', ''json''])\<rparr>"

text \<open>An entry of vendor A (\<^verbatim>\<open>{"value": v, "confidence": c}\<close>) and of vendor B
  (\<^verbatim>\<open>{"text": v, "score": c}\<close>).\<close>

definition entry_a :: "pyval \<Rightarrow> real \<Rightarrow> pyval" where
  "entry_a v c = PDict [(''value'', v), (''confidence'', PFloat c)]"

definition entry_b :: "pyval \<Rightarrow> real \<Rightarrow> pyval" where
  "entry_b v c = PDict [(''text'', v), (''score'', PFloat c)]"

text \<open>A well-formed output of vendor A: subtotal 100, tax 8, total 108, one line item.\<close>

definition example_output_a :: "(string \<times> pyval) list" where
  "example_output_a =
     [(''document_id'', PStr ''INV-1''),
      (''fields'',
       PDict
         [(''invoice_number'', entry_a (PStr ''A-17'') 0.875),
          (''invoice_date'', entry_a (PStr ''2024-01-15'') 0.75),
          (''supplier_name'', entry_a (PStr ''Acme'') 0.75),
          (''currency'', entry_a (PStr ''USD'') 1),
          (''subtotal'', entry_a (PFloat 100) 0.75),
          (''tax'', entry_a (PInt 8) 0.75),
          (''total'', entry_a (PFloat 108) 1),
          (''po_number'', entry_a (PStr ''PO-5'') 0.75)]),
      (''line_items'',
       PList [PDict [(''description'', PStr ''Widget''), (''amount'', PFloat 108),
                     (''confidence'', PFloat 0.75)]])]"

text \<open>Outputs of vendor A on which the pipeline raises: a confidence of 1.5, and a total
  that is the string \<^verbatim>\<open>abc\<close>.\<close>

definition bad_confidence_output :: "(string \<times> pyval) list" where
  "bad_confidence_output =
     [(''document_id'', PStr ''INV-2''),
      (''fields'', PDict [(''total'', entry_a (PFloat 108) 1.5)])]"

definition text_total_output :: "(string \<times> pyval) list" where
  "text_total_output =
     [(''document_id'', PStr ''INV-3''),
      (''fields'', PDict [(''total'', entry_a (PStr ''abc'') 0.75)])]"

text \<open>An output of vendor B: the total is the text \<^verbatim>\<open>108.00\<close>, the tax the text
  \<^verbatim>\<open>n/a\<close>.\<close>

definition example_output_b :: "(string \<times> pyval) list" where
  "example_output_b =
     [(''id'', PStr ''B-9''),
      (''extracted_data'',
       PDict
         [(''financial'',
           PDict
             [(''invoice_num'', entry_b (PStr ''B-9'') 0.875),
              (''tax_amount'', entry_b (PStr ''n/a'') 0.25),
              (''amount_due'', entry_b (PStr ''108.00'') 0.75)])])]"

text \<open>Records for the validator and the router. \<open>audit_of v c\<close> is an audit with value
  \<open>v\<close> and confidence \<open>c\<close>; \<open>example_invoice t\<close> has subtotal 100, tax 8 and total
  \<open>t\<close> in USD, with the critical fields at the confidences 0.875 (invoice number), 1
  (total) and 0.75 (invoice date).\<close>

definition audit_of :: "pyval \<Rightarrow> real \<Rightarrow> field_audit" where
  "audit_of v c =
     \<lparr>fa_value = v, confidence = c, evidence = Some page1, pipeline_version = ''1.0.0'',
      vendor_version = ''v1'', vendor_field_name = None\<rparr>"

definition empty_invoice :: invoice_schema where
  "empty_invoice =
     \<lparr>invoice_number = None, invoice_date = None, supplier_name = None, supplier_id = None,
      currency = None, subtotal = None, tax = None, total_fld = None, po_number = None,
      line_items = None, doc_id = ''INV-1'', extraction_timestamp = 0,
      vendor_name = ''vendor_a'', raw_vendor_output = []\<rparr>"

definition example_invoice :: "real \<Rightarrow> invoice_schema" where
  "example_invoice t =
     empty_invoice
       \<lparr>invoice_number := Some (audit_of (PStr ''A-17'') 0.875),
        invoice_date := Some (audit_of (PStr ''2024-01-15'') 0.75),
        supplier_name := Some (audit_of (PStr ''Acme'') 0.75),
        currency := Some (audit_of (PStr ''USD'') 1),
        subtotal := Some (audit_of (PFloat 100) 0.75),
        tax := Some (audit_of (PFloat 8) 0.75),
        total_fld := Some (audit_of (PFloat t) 1),
        po_number := Some (audit_of (PStr ''PO-5'') 0.75)\<rparr>"

text \<open>The example record without its total, and without its PO number; the example
  record with every critical field at the confidence 0.7 (the double nearest to 7/10),
  which is the default threshold; a validator that requires the invoice number only, and
  one that allows a difference of 0.05 in euros.\<close>

definition invoice_without_total :: invoice_schema where
  "invoice_without_total = (example_invoice 108)\<lparr>total_fld := None\<rparr>"

definition invoice_without_po :: invoice_schema where
  "invoice_without_po = (example_invoice 108)\<lparr>po_number := None\<rparr>"

definition threshold_invoice :: invoice_schema where
  "threshold_invoice =
     (example_invoice 108)
       \<lparr>invoice_number := Some (audit_of (PStr ''A-17'') (round_double 0.7)),
        total_fld := Some (audit_of (PFloat 108) (round_double 0.7)),
        invoice_date := Some (audit_of (PStr ''2024-01-15'') (round_double 0.7))\<rparr>"

definition euro_validator :: validator where
  "euro_validator =
     Validator (Some [(''EUR'', round_double 0.05)]) 100000.0 (round_double 0.7) None"

definition lenient_validator :: validator where
  "lenient_validator = Validator None 100000.0 (round_double 0.7) (Some [''invoice_number''])"

text \<open>A validation result with every check passed.\<close>

definition all_passed :: validation_result where
  "all_passed =
     \<lparr>passed = True,
      checks =
        [(''required_fields_present'', True), (''date_format_valid'', True),
         (''currency_valid'', True), (''reconciliation_pass'', True),
         (''total_within_threshold'', True), (''po_present'', True)],
      errors = [],
      warnings = []\<rparr>"

section \<open>Lemmas\<close>

subsection \<open>Sequencing\<close>

lemma bind_err_Inr_iff:
  "bind_err m f = Inr y \<longleftrightarrow> (\<exists>x. m = Inr x \<and> f x = Inr y)"
  by (cases m) (simp_all add: bind_err_def)

lemma bind_err_Inr [simp]: "bind_err (Inr x) f = f x"
  by (simp add: bind_err_def)

lemma bind_err_Inl [simp]: "bind_err (Inl e) f = Inl e"
  by (simp add: bind_err_def)

subsection \<open>Floating point\<close>

lemma bitlen_small: "bitlen 1 = 1" "bitlen 2 = 2" "bitlen 3 = 2"
  by (simp_all add: compute_bitlen)

lemma bitlen_numeral_eval: "bitlen (numeral k) = bitlen (numeral k div 2) + 1"
  by (subst compute_bitlen) simp

lemmas float_eval =
  fl_add_def fl_sub_def fl_div_def py_sum_def format_2f_def round_double_def binade_def pow2_def
  round_half_even_def bitlen_small bitlen_numeral_eval Let_def

lemma round_double_literals:
  "round_double 0.01 = 5764607523034235 / 576460752303423488"
  "round_double 0.05 = 3602879701896397 / 72057594037927936"
  "round_double 0.7 = 3152519739159347 / 4503599627370496"
  "round_double 108.02 = 7601231746071265 / 70368744177664"
  "round_double 8.01 = 4509229126904709 / 562949953421312"
  by (simp_all add: float_eval)

lemma pow2_pos: "0 < pow2 e"
  by (simp add: pow2_def)

lemma round_half_even_nonneg: "0 \<le> x \<Longrightarrow> 0 \<le> round_half_even x"
  by (simp add: round_half_even_def Let_def)

lemma round_half_even_le_int:
  assumes "x \<le> of_int N"
  shows "round_half_even x \<le> N"
proof -
  have f: "\<lfloor>x\<rfloor> \<le> N" using assms by (simp add: floor_le_iff)
  show ?thesis
  proof (cases "\<lfloor>x\<rfloor> = N")
    case True
    then have "x - of_int \<lfloor>x\<rfloor> \<le> 0" using assms by simp
    then show ?thesis using True by (simp add: round_half_even_def Let_def)
  next
    case False
    with f have "\<lfloor>x\<rfloor> + 1 \<le> N" by simp
    then show ?thesis by (simp add: round_half_even_def Let_def)
  qed
qed


lemma round_double_nonneg:
  assumes "0 \<le> x"
  shows "0 \<le> round_double x"
proof (cases "x = 0")
  case True
  then show ?thesis by (simp add: round_double_def)
next
  case False
  with assms have x: "0 < x" by simp
  let ?u = "pow2 (max (binade \<bar>x\<bar>) (- 1022) - 52)"
  have "0 \<le> \<bar>x\<bar> / ?u" using pow2_pos [of "max (binade \<bar>x\<bar>) (- 1022) - 52"] by simp
  from round_half_even_nonneg [OF this] pow2_pos [of "max (binade \<bar>x\<bar>) (- 1022) - 52"] x
  show ?thesis by (simp add: round_double_def Let_def)
qed

lemma binade_le:
  assumes "0 < x" and "x \<le> 4"
  shows "binade x \<le> 2"
proof (cases "1 \<le> x")
  case True
  have "\<lfloor>x\<rfloor> \<le> 4" using assms(2) by (simp add: floor_le_iff)
  then have "\<lfloor>x\<rfloor> < 2 ^ nat 3" by simp
  then have "bitlen \<lfloor>x\<rfloor> \<le> 3" by (simp add: bitlen_le_iff_power)
  then show ?thesis using True by (simp add: binade_def)
next
  case False
  then show ?thesis using bitlen_nonneg [of "\<lceil>1 / x\<rceil> - 1"] by (simp add: binade_def)
qed

text \<open>Up to 4 the doubles are multiples of \<open>1 / 2 ^ m\<close> for some \<open>m\<close> of 50 or more.\<close>

lemma round_double_small:
  assumes "0 < x" and "x \<le> 4"
  shows "\<exists>m. 50 \<le> m \<and> round_double x = of_int (round_half_even (x * 2 ^ m)) / 2 ^ m"
proof -
  define e where "e = max (binade \<bar>x\<bar>) (- 1022) - 52"
  define m where "m = nat (- e)"
  have ax: "\<bar>x\<bar> = x" and sx: "sgn x = 1" and nz: "x \<noteq> 0" using assms(1) by simp_all
  have "binade \<bar>x\<bar> \<le> 2" using binade_le [of x] assms by simp
  then have e: "e \<le> - 50" by (simp add: e_def)
  then have u: "pow2 e = 1 / 2 ^ m" by (simp add: pow2_def m_def)
  have m: "50 \<le> m" using e by (simp add: m_def)
  have "round_double x = sgn x * of_int (round_half_even (\<bar>x\<bar> / pow2 e)) * pow2 e"
    using nz unfolding round_double_def Let_def e_def by simp
  also have "\<dots> = real_of_int (round_half_even (x * 2 ^ m)) / 2 ^ m"
    unfolding ax sx u by simp
  finally show ?thesis using m by blast
qed

lemma round_double_le_nat:
  assumes "0 \<le> x" and "x \<le> real n" and "n \<le> 4"
  shows "round_double x \<le> real n"
proof (cases "x = 0")
  case True
  then show ?thesis by (simp add: round_double_def)
next
  case False
  with assms have x: "0 < x" and x4: "x \<le> 4" by simp_all
  from round_double_small [OF x x4] obtain m where
    r: "round_double x = of_int (round_half_even (x * 2 ^ m)) / 2 ^ m" by blast
  have "x * 2 ^ m \<le> real n * 2 ^ m" using assms(2) by simp
  then have "x * 2 ^ m \<le> of_int (int n * 2 ^ m)" by simp
  from round_half_even_le_int [OF this]
  have "round_half_even (x * 2 ^ m) \<le> int n * 2 ^ m" .
  then have "real_of_int (round_half_even (x * 2 ^ m)) \<le> real_of_int (int n * 2 ^ m)"
    by (simp only: of_int_le_iff)
  then have "real_of_int (round_half_even (x * 2 ^ m)) \<le> real n * 2 ^ m" by simp
  then have "real_of_int (round_half_even (x * 2 ^ m)) / 2 ^ m \<le> real n"
    by (simp add: divide_le_eq)
  then show ?thesis unfolding r .
qed


lemma foldl_fl_add_bounds:
  assumes "0 \<le> s" and "s \<le> real k" and "\<forall>c \<in> set cs. 0 \<le> c \<and> c \<le> 1"
    and "k + length cs \<le> 4"
  shows "0 \<le> foldl fl_add s cs \<and> foldl fl_add s cs \<le> real (k + length cs)"
  using assms
proof (induction cs arbitrary: s k)
  case Nil
  then show ?case by simp
next
  case (Cons c cs)
  have c: "0 \<le> c" "c \<le> 1" using Cons.prems(3) by simp_all
  have a: "0 \<le> s + c" "s + c \<le> real (Suc k)" using Cons.prems(1,2) c by simp_all
  have k: "Suc k \<le> 4" using Cons.prems(4) by simp
  have 1: "0 \<le> fl_add s c" using round_double_nonneg [OF a(1)] by (simp add: fl_add_def)
  have 2: "fl_add s c \<le> real (Suc k)"
    using round_double_le_nat [OF a(1) a(2) k] by (simp add: fl_add_def)
  have 3: "\<forall>c \<in> set cs. 0 \<le> c \<and> c \<le> 1" using Cons.prems(3) by simp
  have 4: "Suc k + length cs \<le> 4" using Cons.prems(4) by simp
  from Cons.IH [OF 1 2 3 4] show ?case by simp
qed


lemma float_mean_bounds:
  assumes "\<forall>c \<in> set cs. 0 \<le> c \<and> c \<le> 1" and "cs \<noteq> []" and "length cs \<le> 4"
  shows "0 \<le> fl_div (py_sum cs) (real (length cs))
         \<and> fl_div (py_sum cs) (real (length cs)) \<le> 1"
proof -
  have b: "0 \<le> py_sum cs \<and> py_sum cs \<le> real (length cs)"
    using foldl_fl_add_bounds [of 0 0 cs] assms(1,3) by (simp add: py_sum_def)
  have pos: "0 < real (length cs)" using assms(2) by simp
  have q0: "0 \<le> py_sum cs / real (length cs)" using b pos by simp
  have q1: "py_sum cs / real (length cs) \<le> real 1" using b pos by (simp add: divide_le_eq)
  from round_double_nonneg [OF q0] round_double_le_nat [OF q0 q1]
  show ?thesis by (simp add: fl_div_def)
qed


subsection \<open>The router\<close>

lemma getattr_critical:
  "getattr L invoice ''invoice_number'' = of_slot (invoice_number invoice)"
  "getattr L invoice ''total'' = of_slot (total_fld invoice)"
  "getattr L invoice ''invoice_date'' = of_slot (invoice_date invoice)"
  by (simp_all add: getattr_def)

lemma low_confidence_fields_critical:
  "low_confidence_fields L V invoice critical_fields = Inr (present_below V invoice)"
  by (simp add: critical_fields_def present_below_def critical_slots_def getattr_critical
        of_slot_def bind_err_def split: option.split)

lemma confidence_scores_critical:
  "confidence_scores L invoice critical_fields = Inr (present_confidences invoice)"
  by (simp add: critical_fields_def present_confidences_def critical_slots_def getattr_critical
        of_slot_def bind_err_def split: option.split)

lemma route_eq:
  "route L V invoice validation =
     RoutingDecision
       (if failure_codes validation @ low_confidence_codes L (present_below V invoice)
             @ policy_codes validation = []
           \<and> low_confidence_threshold V \<le> critical_score invoice
        then ''AUTO_POST'' else ''NEEDS_REVIEW'')
       (failure_codes validation @ low_confidence_codes L (present_below V invoice)
          @ policy_codes validation)
       (critical_score invoice)"
  by (simp add: route_def low_confidence_fields_critical confidence_scores_critical bind_err_def
        failure_codes_def low_confidence_codes_def policy_codes_def critical_score_def Let_def)

lemma present_confidences_bounds:
  assumes "invoice_ok invoice"
  shows "\<forall>c \<in> set (present_confidences invoice). 0 \<le> c \<and> c \<le> 1"
  using assms
  by (auto simp: invoice_ok_def present_confidences_def critical_slots_def slot_ok_def audit_ok_def
        split: option.splits)

lemma present_confidences_length: "length (present_confidences invoice) \<le> 4"
  by (simp add: present_confidences_def critical_slots_def split: option.split)

lemma critical_score_bounds:
  assumes "invoice_ok invoice"
  shows "0 \<le> critical_score invoice \<and> critical_score invoice \<le> 1"
proof (cases "present_confidences invoice = []")
  case True
  then show ?thesis by (simp add: critical_score_def)
next
  case False
  from float_mean_bounds [OF present_confidences_bounds [OF assms] False
      present_confidences_length]
  show ?thesis using False by (simp add: critical_score_def)
qed


lemma route_returns:
  assumes "invoice_ok invoice"
  shows "route L V invoice validation =
     Inr \<lparr>outcome =
            (if failure_codes validation @ low_confidence_codes L (present_below V invoice)
                  @ policy_codes validation = []
                \<and> low_confidence_threshold V \<le> critical_score invoice
             then ''AUTO_POST'' else ''NEEDS_REVIEW''),
          reason_codes =
            failure_codes validation @ low_confidence_codes L (present_below V invoice)
              @ policy_codes validation,
          confidence_score = critical_score invoice\<rparr>"
  using critical_score_bounds [OF assms] by (simp add: route_eq RoutingDecision_def)

subsection \<open>The validator\<close>

lemma check_required_fields_grows:
  assumes "check_required_fields L V invoice errs = Inr (b, errs')"
  shows "\<exists>new. errs' = errs @ new \<and> (\<not> b \<longrightarrow> new \<noteq> [])"
  using assms
  by (auto simp: check_required_fields_def bind_err_Inr_iff split: if_splits)

lemma check_date_format_grows:
  assumes "check_date_format L invoice errs = (b, errs')"
  shows "\<exists>new. errs' = errs @ new \<and> (\<not> b \<longrightarrow> new \<noteq> [])"
  using assms
  by (auto simp: check_date_format_def split: option.splits pyval.splits if_splits)

lemma check_currency_grows:
  assumes "check_currency L invoice errs = (b, errs')"
  shows "\<exists>new. errs' = errs @ new \<and> (\<not> b \<longrightarrow> new \<noteq> [])"
  using assms
  by (auto simp: check_currency_def Let_def split: option.splits if_splits)

lemma check_reconciliation_grows:
  assumes "check_reconciliation L V invoice errs = Inr (b, errs')"
  shows "\<exists>new. errs' = errs @ new \<and> (\<not> b \<longrightarrow> new \<noteq> [])"
  using assms
  by (auto simp: check_reconciliation_def Let_def bind_err_Inr_iff split: option.splits if_splits)

lemma validate_Inr_iff:
  "validate L V invoice = Inr r \<longleftrightarrow>
     (\<exists>c1 e1 c4 e4 c5 w5.
        check_required_fields L V invoice [] = Inr (c1, e1)
        \<and> check_reconciliation L V invoice
             (snd (check_currency L invoice (snd (check_date_format L invoice e1)))) = Inr (c4, e4)
        \<and> check_total_threshold L V invoice [] = Inr (c5, w5)
        \<and> r = \<lparr>passed = (e4 = []),
                checks =
                  [(''required_fields_present'', c1),
                   (''date_format_valid'', fst (check_date_format L invoice e1)),
                   (''currency_valid'', fst (check_currency L invoice (snd (check_date_format L invoice e1)))),
                   (''reconciliation_pass'', c4),
                   (''total_within_threshold'', c5),
                   (''po_present'', fst (check_po_present invoice w5))],
                errors = e4,
                warnings = snd (check_po_present invoice w5)\<rparr>)"
  by (auto simp: validate_def bind_err_Inr_iff Let_def)

lemma validate_passed:
  assumes "validate L V invoice = Inr r"
  shows "passed r = (errors r = [])"
  using assms by (auto simp: validate_Inr_iff)

lemma check_required_fields_returns:
  assumes "list_all (\<lambda>f. getattr L invoice f \<noteq> AttrOther) fs"
  shows "\<exists>ms. missing_fields L invoice fs = Inr ms"
  using assms
  by (induction fs) (auto split: attr.splits)

lemma float_ready_iff: "float_ready L v \<longleftrightarrow> (\<exists>r. py_float L v = Inr r)"
  by (cases "py_float L v") (simp_all add: float_ready_def)

lemma check_reconciliation_returns:
  assumes "reconciliation_ready L invoice"
  shows "\<exists>r. check_reconciliation L V invoice errs = Inr r"
  using assms
  by (auto simp: check_reconciliation_def reconciliation_ready_def float_or_zero_def
        float_ready_iff Let_def split: option.splits)

lemma check_total_threshold_returns:
  assumes "threshold_ready L invoice"
  shows "\<exists>r. check_total_threshold L V invoice warns = Inr r"
  using assms
  by (auto simp: check_total_threshold_def threshold_ready_def float_ready_iff
        split: option.splits)

lemma validate_returns:
  assumes "validate_ready L V invoice"
  shows "\<exists>r. validate L V invoice = Inr r"
proof -
  have "list_all (\<lambda>f. getattr L invoice f \<noteq> AttrOther) (required_fields V)"
    using assms by (simp add: validate_ready_def)
  from check_required_fields_returns [OF this]
  obtain ms where ms: "missing_fields L invoice (required_fields V) = Inr ms" by blast
  then have "\<exists>r1. check_required_fields L V invoice [] = Inr r1"
    by (auto simp: check_required_fields_def)
  then obtain r1 where r1: "check_required_fields L V invoice [] = Inr r1" ..
  have rr: "reconciliation_ready L invoice" and tr: "threshold_ready L invoice"
    using assms by (simp_all add: validate_ready_def)
  from check_reconciliation_returns [OF rr]
  obtain r4 where r4: "check_reconciliation L V invoice
      (snd (check_currency L invoice (snd (check_date_format L invoice (snd r1))))) = Inr r4"
    by blast
  from check_total_threshold_returns [OF tr]
  obtain r5 where r5: "check_total_threshold L V invoice [] = Inr r5" by blast
  show ?thesis using r1 r4 r5 by (simp add: validate_def Let_def)
qed

lemma validate_hard_checks:
  assumes "validate L V invoice = Inr r"
    and "n \<in> set [''required_fields_present'', ''date_format_valid'', ''currency_valid'', ''reconciliation_pass'']"
    and "map_of (checks r) n = Some False"
  shows "\<not> passed r"
proof -
  from assms(1) obtain c1 e1 c4 e4 c5 w5 where
    h1: "check_required_fields L V invoice [] = Inr (c1, e1)" and
    h4: "check_reconciliation L V invoice
             (snd (check_currency L invoice (snd (check_date_format L invoice e1)))) = Inr (c4, e4)" and
    r: "r = \<lparr>passed = (e4 = []),
                checks =
                  [(''required_fields_present'', c1),
                   (''date_format_valid'', fst (check_date_format L invoice e1)),
                   (''currency_valid'', fst (check_currency L invoice (snd (check_date_format L invoice e1)))),
                   (''reconciliation_pass'', c4),
                   (''total_within_threshold'', c5),
                   (''po_present'', fst (check_po_present invoice w5))],
                errors = e4,
                warnings = snd (check_po_present invoice w5)\<rparr>"
    unfolding validate_Inr_iff by blast
  obtain c2 e2 where h2: "check_date_format L invoice e1 = (c2, e2)" by (cases "check_date_format L invoice e1")
  obtain c3 e3 where h3: "check_currency L invoice e2 = (c3, e3)" by (cases "check_currency L invoice e2")
  from check_required_fields_grows [OF h1] obtain n1 where n1: "e1 = n1" "\<not> c1 \<longrightarrow> n1 \<noteq> []" by auto
  from check_date_format_grows [OF h2] obtain n2 where n2: "e2 = e1 @ n2" "\<not> c2 \<longrightarrow> n2 \<noteq> []" by auto
  from check_currency_grows [OF h3] obtain n3 where n3: "e3 = e2 @ n3" "\<not> c3 \<longrightarrow> n3 \<noteq> []" by auto
  from h4 h2 h3 have h4': "check_reconciliation L V invoice e3 = Inr (c4, e4)" by simp
  from check_reconciliation_grows [OF h4'] obtain n4 where n4: "e4 = e3 @ n4" "\<not> c4 \<longrightarrow> n4 \<noteq> []" by auto
  from assms(2,3) r h2 h3 have "\<not> c1 \<or> \<not> c2 \<or> \<not> c3 \<or> \<not> c4"
    by (auto split: if_splits)
  then have "e4 \<noteq> []" using n1 n2 n3 n4 by auto
  then show ?thesis using r by simp
qed

lemma map_sum_bind_err:
  "map_sum id g (bind_err m f) = bind_err m (\<lambda>x. map_sum id g (f x))"
  by (cases m) simp_all

subsection \<open>The clock enters the record only as its timestamp\<close>

lemma InvoiceSchema_clock:
  "InvoiceSchema L did t2 vn output slot lis =
     map_sum id (\<lambda>r. r\<lparr>extraction_timestamp := t2\<rparr>) (InvoiceSchema L did t1 vn output slot lis)"
  by (simp add: InvoiceSchema_def split: option.split)

lemma normalize_vendor_a_clock:
  "normalize_vendor_a L pv t2 output did vn vv =
     map_sum id (\<lambda>r. r\<lparr>extraction_timestamp := t2\<rparr>) (normalize_vendor_a L pv t1 output did vn vv)"
  by (simp add: normalize_vendor_a_def Let_def map_sum_bind_err InvoiceSchema_clock [of L _ t2 _ _ _ _ t1])

lemma normalize_vendor_b_clock:
  "normalize_vendor_b L pv t2 output did vn vv =
     map_sum id (\<lambda>r. r\<lparr>extraction_timestamp := t2\<rparr>) (normalize_vendor_b L pv t1 output did vn vv)"
  by (simp add: normalize_vendor_b_def Let_def map_sum_bind_err InvoiceSchema_clock [of L _ t2 _ _ _ _ t1])

lemma normalize_clock:
  "normalize L pv t2 output vn vv =
     map_sum id (\<lambda>r. r\<lparr>extraction_timestamp := t2\<rparr>) (normalize L pv t1 output vn vv)"
  by (simp add: normalize_def Let_def normalize_vendor_a_clock [of L pv t2 _ _ _ _ t1]
        normalize_vendor_b_clock [of L pv t2 _ _ _ _ t1])

subsection \<open>Audits\<close>

lemma FieldAudit_Inr_iff:
  "FieldAudit L v c ev pv vv vfn = Inr fa \<longleftrightarrow>
     (\<exists>x. pyd_float L c = Some x \<and> 0 \<le> x \<and> x \<le> 1
        \<and> fa = \<lparr>fa_value = v, confidence = x, evidence = ev, pipeline_version = pv,
                  vendor_version = vv, vendor_field_name = vfn\<rparr>)"
  by (auto simp: FieldAudit_def split: option.splits)

lemma FieldAudit_audit_ok:
  "FieldAudit L v c ev pv vv vfn = Inr fa \<Longrightarrow> audit_ok fa \<and> fa_value fa = v"
  by (auto simp: FieldAudit_Inr_iff audit_ok_def)

lemma FieldAudit_wf:
  "wf_confidence L c \<Longrightarrow> \<exists>fa. FieldAudit L v c ev pv vv vfn = Inr fa"
  by (auto simp: FieldAudit_def wf_confidence_def split: option.splits)

subsection \<open>Vendor A\<close>

lemma create_field_audit_a_absent:
  "map_of d n = None \<Longrightarrow> create_field_audit_a L pv vv (PDict d) n None = Inr None"
  by (simp add: create_field_audit_a_def py_contains_def)

lemma create_field_audit_a_present:
  "map_of d n = Some (PDict e) \<Longrightarrow>
   create_field_audit_a L pv vv (PDict d) n None =
     bind_err (FieldAudit L (dict_get e ''value'' PNone) (dict_get e ''confidence'' (PFloat 0))
                 (Some page1) pv vv (Some n))
       (\<lambda>fa. Inr (Some fa))"
  by (simp add: create_field_audit_a_def py_contains_def py_getitem_def py_get_def)

lemma create_field_audit_a_ok:
  "create_field_audit_a L pv vv flds n vfn = Inr (Some fa) \<Longrightarrow> audit_ok fa"
  by (auto simp: create_field_audit_a_def bind_err_Inr_iff dest: FieldAudit_audit_ok split: if_splits)

lemma create_field_audit_a_wf:
  assumes "wf_entry_a L d n"
  shows "\<exists>a. create_field_audit_a L pv vv (PDict d) n None = Inr a
            \<and> (\<forall>fa. a = Some fa \<longrightarrow> audit_ok fa \<and> wf_value_a L n (fa_value fa))"
proof (cases "map_of d n")
  case None
  then show ?thesis by (simp add: create_field_audit_a_absent)
next
  case (Some x)
  with assms obtain e where e: "x = PDict e"
    and c: "wf_confidence L (dict_get e ''confidence'' (PFloat 0))"
    and v: "wf_value_a L n (dict_get e ''value'' PNone)"
    by (auto simp: wf_entry_a_def split: pyval.splits)
  from FieldAudit_wf [OF c] obtain fa where
    fa: "FieldAudit L (dict_get e ''value'' PNone) (dict_get e ''confidence'' (PFloat 0))
           (Some page1) pv vv (Some n) = Inr fa" by blast
  from FieldAudit_audit_ok [OF fa] v Some e fa show ?thesis
    by (simp add: create_field_audit_a_present)
qed

lemma audits_a_ok:
  "audits_a L pv vv flds ns = Inr m \<Longrightarrow> map_of m n = Some fa \<Longrightarrow> audit_ok fa"
proof (induction ns arbitrary: m)
  case Nil
  then show ?case by simp
next
  case (Cons k ks)
  from Cons.prems(1) obtain a m' where
    a: "create_field_audit_a L pv vv flds k None = Inr a" and
    m': "audits_a L pv vv flds ks = Inr m'" and
    m: "m = (case a of Some fa \<Rightarrow> (k, fa) # m' | None \<Rightarrow> m')"
    by (auto simp: bind_err_Inr_iff)
  show ?case
  proof (cases a)
    case None
    with m Cons.IH [OF m'] Cons.prems(2) show ?thesis by simp
  next
    case (Some fa0)
    with m Cons.IH [OF m'] Cons.prems(2) create_field_audit_a_ok a show ?thesis
      by (auto split: if_splits)
  qed
qed

lemma audits_a_wf:
  assumes "list_all (wf_entry_a L d) ns"
  shows "\<exists>m. audits_a L pv vv (PDict d) ns = Inr m
            \<and> (\<forall>n fa. map_of m n = Some fa \<longrightarrow> wf_value_a L n (fa_value fa))"
  using assms
proof (induction ns)
  case Nil
  then show ?case by simp
next
  case (Cons k ks)
  then obtain m' where m': "audits_a L pv vv (PDict d) ks = Inr m'"
    and v': "\<forall>n fa. map_of m' n = Some fa \<longrightarrow> wf_value_a L n (fa_value fa)" by auto
  from Cons.prems have "wf_entry_a L d k" by simp
  from create_field_audit_a_wf [OF this] obtain a where
    a: "create_field_audit_a L pv vv (PDict d) k None = Inr a" and
    va: "\<forall>fa. a = Some fa \<longrightarrow> audit_ok fa \<and> wf_value_a L k (fa_value fa)" by blast
  show ?case using m' v' a va by (cases a) auto
qed

subsection \<open>Line items\<close>

lemma map_err_Inr_all:
  "map_err f xs = Inr ys \<Longrightarrow> y \<in> set ys \<Longrightarrow> \<exists>x \<in> set xs. f x = Inr y"
  by (induction xs arbitrary: ys) (auto simp: bind_err_Inr_iff)

lemma map_err_returns:
  "\<forall>x \<in> set xs. \<exists>y. f x = Inr y \<Longrightarrow> \<exists>ys. map_err f xs = Inr ys"
  by (induction xs) auto

lemma LineItem_audit:
  "LineItem L desc qty price amt aud = Inr li \<Longrightarrow> audit li = aud"
  by (auto simp: LineItem_def bind_err_Inr_iff split: option.splits)

lemma line_item_a_ok: "line_item_a L pv vv item = Inr li \<Longrightarrow> audit_ok (audit li)"
  by (auto simp: line_item_a_def bind_err_Inr_iff dest!: LineItem_audit FieldAudit_audit_ok)

lemma line_item_b_ok: "line_item_b L pv vv item = Inr li \<Longrightarrow> audit_ok (audit li)"
  by (auto simp: line_item_b_def bind_err_Inr_iff dest!: LineItem_audit FieldAudit_audit_ok)

lemma pyd_opt_float_wf: "wf_opt_float L v \<Longrightarrow> \<exists>q. pyd_opt_float L v = Inr q"
  by (auto simp: wf_opt_float_def pyd_opt_float_def split: pyval.splits option.splits)

lemma LineItem_wf:
  assumes "pyd_str L desc \<noteq> None" "wf_opt_float L qty" "wf_opt_float L price" "pyd_float L amt \<noteq> None"
  shows "\<exists>li. LineItem L desc qty price amt aud = Inr li"
proof -
  from pyd_opt_float_wf [OF assms(2)] obtain q where q: "pyd_opt_float L qty = Inr q" by blast
  from pyd_opt_float_wf [OF assms(3)] obtain p where p: "pyd_opt_float L price = Inr p" by blast
  show ?thesis using assms(1,4) q p by (auto simp: LineItem_def)
qed

lemma line_item_a_wf:
  assumes "wf_item L ''description'' ''quantity'' ''unit_price'' ''amount'' ''confidence'' item"
  shows "\<exists>li. line_item_a L pv vv item = Inr li"
proof -
  from assms obtain d where d: "item = PDict d"
    and w: "pyd_str L (dict_get d ''description'' (PStr [])) \<noteq> None"
      "wf_opt_float L (dict_get d ''quantity'' PNone)"
      "wf_opt_float L (dict_get d ''unit_price'' PNone)"
      "pyd_float L (dict_get d ''amount'' (PFloat 0)) \<noteq> None"
      "wf_confidence L (dict_get d ''confidence'' (PFloat 0))"
    by (auto simp: wf_item_def split: pyval.splits)
  from FieldAudit_wf [OF w(5)] obtain aud where
    aud: "FieldAudit L item (dict_get d ''confidence'' (PFloat 0)) (Some page1) pv vv (Some ''line_item'') = Inr aud"
    by blast
  from LineItem_wf [OF w(1-4)] obtain li where
    "LineItem L (dict_get d ''description'' (PStr [])) (dict_get d ''quantity'' PNone)
       (dict_get d ''unit_price'' PNone) (dict_get d ''amount'' (PFloat 0)) aud = Inr li" by blast
  then show ?thesis using d aud by (simp add: line_item_a_def py_get_def)
qed

lemma line_item_b_wf:
  assumes "wf_item L ''desc'' ''qty'' ''price'' ''line_total'' ''score'' item"
  shows "\<exists>li. line_item_b L pv vv item = Inr li"
proof -
  from assms obtain d where d: "item = PDict d"
    and w: "pyd_str L (dict_get d ''desc'' (PStr [])) \<noteq> None"
      "wf_opt_float L (dict_get d ''qty'' PNone)"
      "wf_opt_float L (dict_get d ''price'' PNone)"
      "pyd_float L (dict_get d ''line_total'' (PFloat 0)) \<noteq> None"
      "wf_confidence L (dict_get d ''score'' (PFloat 0))"
    by (auto simp: wf_item_def split: pyval.splits)
  from FieldAudit_wf [OF w(5)] obtain aud where
    aud: "FieldAudit L item (dict_get d ''score'' (PFloat 0)) (Some page1) pv vv (Some ''line_item'') = Inr aud"
    by blast
  from LineItem_wf [OF w(1-4)] obtain li where
    "LineItem L (dict_get d ''desc'' (PStr [])) (dict_get d ''qty'' PNone)
       (dict_get d ''price'' PNone) (dict_get d ''line_total'' (PFloat 0)) aud = Inr li" by blast
  then show ?thesis using d aud by (simp add: line_item_b_def py_get_def)
qed

lemma line_items_a_ok:
  assumes "line_items_a L pv vv output = Inr (Some lis)"
  shows "list_all (\<lambda>li. audit_ok (audit li)) lis"
proof -
  from assms obtain items where m: "map_err (line_item_a L pv vv) items = Inr lis"
    by (auto simp: line_items_a_def bind_err_Inr_iff split: option.splits)
  show ?thesis unfolding list_all_iff
  proof
    fix li assume "li \<in> set lis"
    from map_err_Inr_all [OF m this] show "audit_ok (audit li)" using line_item_a_ok by blast
  qed
qed

lemma line_items_b_ok:
  assumes "line_items_b L pv vv output = Inr (Some lis)"
  shows "list_all (\<lambda>li. audit_ok (audit li)) lis"
proof -
  from assms obtain items where m: "map_err (line_item_b L pv vv) items = Inr lis"
    by (auto simp: line_items_b_def bind_err_Inr_iff split: if_splits)
  show ?thesis unfolding list_all_iff
  proof
    fix li assume "li \<in> set lis"
    from map_err_Inr_all [OF m this] show "audit_ok (audit li)" using line_item_b_ok by blast
  qed
qed

subsection \<open>Records of vendor A\<close>

lemma InvoiceSchema_Inr_iff:
  "InvoiceSchema L did now vn output slot lis = Inr r \<longleftrightarrow>
     (\<exists>d. pyd_str L did = Some d \<and>
        r = \<lparr>invoice_number = slot ''invoice_number'',
               invoice_date = slot ''invoice_date'',
               supplier_name = slot ''supplier_name'',
               supplier_id = slot ''supplier_id'',
               currency = slot ''currency'',
               subtotal = slot ''subtotal'',
               tax = slot ''tax'',
               total_fld = slot ''total'',
               po_number = slot ''po_number'',
               line_items = lis,
               doc_id = d,
               extraction_timestamp = now,
               vendor_name = vn,
               raw_vendor_output = output\<rparr>)"
  by (auto simp: InvoiceSchema_def split: option.splits)

lemma InvoiceSchema_invoice_ok:
  assumes "InvoiceSchema L did now vn output (map_of m) lis = Inr r"
    and "\<And>n fa. map_of m n = Some fa \<Longrightarrow> audit_ok fa"
    and "\<And>xs. lis = Some xs \<Longrightarrow> list_all (\<lambda>li. audit_ok (audit li)) xs"
  shows "invoice_ok r"
proof -
  have s: "slot_ok (map_of m n)" for n
    using assms(2) by (cases "map_of m n") (simp_all add: slot_ok_def)
  from assms(1) obtain d where r: "r = \<lparr>invoice_number = map_of m ''invoice_number'',
               invoice_date = map_of m ''invoice_date'',
               supplier_name = map_of m ''supplier_name'',
               supplier_id = map_of m ''supplier_id'',
               currency = map_of m ''currency'',
               subtotal = map_of m ''subtotal'',
               tax = map_of m ''tax'',
               total_fld = map_of m ''total'',
               po_number = map_of m ''po_number'',
               line_items = lis,
               doc_id = d,
               extraction_timestamp = now,
               vendor_name = vn,
               raw_vendor_output = output\<rparr>"
    unfolding InvoiceSchema_Inr_iff by blast
  show ?thesis unfolding invoice_ok_def r using s assms(3)
    by (simp split: option.split)
qed

lemma normalize_vendor_a_ok:
  assumes "normalize_vendor_a L pv now output did vn vv = Inr r"
  shows "invoice_ok r"
proof -
  from assms obtain lis m where
    lis: "line_items_a L pv vv output = Inr lis" and
    m: "audits_a L pv vv (dict_get output ''fields'' (PDict [])) canonical_fields = Inr m" and
    r: "InvoiceSchema L did now vn output (map_of m) lis = Inr r"
    by (auto simp: normalize_vendor_a_def Let_def bind_err_Inr_iff)
  show ?thesis
  proof (rule InvoiceSchema_invoice_ok [OF r])
    fix n fa assume "map_of m n = Some fa"
    then show "audit_ok fa" using audits_a_ok [OF m] by blast
  next
    fix xs assume "lis = Some xs"
    then show "list_all (\<lambda>li. audit_ok (audit li)) xs" using line_items_a_ok lis by blast
  qed
qed

lemma line_items_a_wf:
  assumes "case map_of output ''line_items'' of
            None \<Rightarrow> True
          | Some (PList items) \<Rightarrow>
              list_all
                (wf_item L ''description'' ''quantity'' ''unit_price'' ''amount'' ''confidence'')
                items
          | Some _ \<Rightarrow> False"
  shows "\<exists>lis. line_items_a L pv vv output = Inr lis"
proof (cases "map_of output ''line_items''")
  case None
  then show ?thesis by (simp add: line_items_a_def)
next
  case (Some v)
  with assms obtain items where v: "v = PList items"
    and w: "list_all (wf_item L ''description'' ''quantity'' ''unit_price'' ''amount'' ''confidence'') items"
    by (auto split: pyval.splits)
  have "\<forall>x \<in> set items. \<exists>y. line_item_a L pv vv x = Inr y"
    using w line_item_a_wf by (auto simp: list_all_iff)
  from map_err_returns [OF this] obtain ys where "map_err (line_item_a L pv vv) items = Inr ys" ..
  then show ?thesis using Some v by (simp add: line_items_a_def py_iter_def)
qed

lemma normalize_vendor_a_wf:
  assumes "wf_vendor_a L output"
  shows "\<exists>r. normalize_vendor_a L pv now output (document_id output) vn vv = Inr r
            \<and> reconciliation_ready L r \<and> threshold_ready L r"
proof -
  from assms obtain d where
    did: "pyd_str L (document_id output) \<noteq> None" and
    d: "dict_get output ''fields'' (PDict []) = PDict d" and
    es: "list_all (wf_entry_a L d) canonical_fields" and
    li: "case map_of output ''line_items'' of
            None \<Rightarrow> True
          | Some (PList items) \<Rightarrow>
              list_all
                (wf_item L ''description'' ''quantity'' ''unit_price'' ''amount'' ''confidence'')
                items
          | Some _ \<Rightarrow> False"
    by (auto simp: wf_vendor_a_def split: pyval.splits)
  from line_items_a_wf [OF li] obtain lis where lis: "line_items_a L pv vv output = Inr lis" by blast
  from audits_a_wf [OF es] obtain m where
    m: "audits_a L pv vv (PDict d) canonical_fields = Inr m" and
    v: "\<forall>n fa. map_of m n = Some fa \<longrightarrow> wf_value_a L n (fa_value fa)" by blast
  from did obtain i where i: "pyd_str L (document_id output) = Some i" by auto
  let ?r = "\<lparr>invoice_number = map_of m ''invoice_number'',
               invoice_date = map_of m ''invoice_date'',
               supplier_name = map_of m ''supplier_name'',
               supplier_id = map_of m ''supplier_id'',
               currency = map_of m ''currency'',
               subtotal = map_of m ''subtotal'',
               tax = map_of m ''tax'',
               total_fld = map_of m ''total'',
               po_number = map_of m ''po_number'',
               line_items = lis,
               doc_id = i,
               extraction_timestamp = now,
               vendor_name = vn,
               raw_vendor_output = output\<rparr>"
  have r: "normalize_vendor_a L pv now output (document_id output) vn vv = Inr ?r"
    using lis m d i by (simp add: normalize_vendor_a_def InvoiceSchema_def)
  have vs: "map_of m ''subtotal'' = Some fa \<Longrightarrow> \<not> truthy (fa_value fa) \<or> float_ready L (fa_value fa)"
    and vt: "map_of m ''tax'' = Some fa \<Longrightarrow> \<not> truthy (fa_value fa) \<or> float_ready L (fa_value fa)"
    and vtot: "map_of m ''total'' = Some fa \<Longrightarrow> fa_value fa = PNone \<or> float_ready L (fa_value fa)"
    for fa
    using v [rule_format, of "''subtotal''" fa] v [rule_format, of "''tax''" fa]
      v [rule_format, of "''total''" fa]
    by (simp_all add: wf_value_a_def)
  have rr: "reconciliation_ready L ?r"
    using vs vt vtot by (auto simp: reconciliation_ready_def split: option.splits)
  have tr: "threshold_ready L ?r"
    using vtot by (auto simp: threshold_ready_def split: option.splits)
  from r rr tr show ?thesis by blast
qed

subsection \<open>Vendor B\<close>

lemma create_field_audit_b_ok:
  "create_field_audit_b L pv vv financial vf cf = Inr (Some fa) \<Longrightarrow> audit_ok fa"
  by (auto simp: create_field_audit_b_def bind_err_Inr_iff dest: FieldAudit_audit_ok
        split: if_splits sum.splits)

lemma case_sum_Some_iff:
  "(case s of Inl e \<Rightarrow> (if P e then Inr None else Inl e) | Inr r \<Rightarrow> g r) = Inr (Some fa)
     \<longleftrightarrow> (\<exists>r. s = Inr r \<and> g r = Inr (Some fa))"
  by (cases s) simp_all

lemma py_float_errors:
  "py_float L v = Inl e \<Longrightarrow> e = ValueError \<or> e = TypeError \<or> e = OverflowError"
  by (cases v) (auto split: option.splits if_splits)

lemma create_field_audit_b_numeric:
  assumes "create_field_audit_b L pv vv financial vf cf = Inr (Some fa)"
    and "cf \<in> set [''subtotal'', ''tax'', ''total'']"
  shows "\<exists>x. fa_value fa = PFloat x"
proof -
  from assms obtain conf r where
     "FieldAudit L (PFloat r) conf (Some page1) pv vv (Some vf) = Inr fa"
    unfolding create_field_audit_b_def bind_err_Inr_iff
    by (auto simp: case_sum_Some_iff bind_err_Inr_iff split: if_splits)
  from FieldAudit_audit_ok [OF this] show ?thesis by blast
qed

lemma create_field_audit_b_absent:
  "map_of d vf = None \<Longrightarrow> create_field_audit_b L pv vv (PDict d) vf cf = Inr None"
  by (simp add: create_field_audit_b_def py_contains_def)

lemma create_field_audit_b_present:
  "map_of d vf = Some (PDict e) \<Longrightarrow>
   create_field_audit_b L pv vv (PDict d) vf cf =
     (if cf \<in> set [''subtotal'', ''tax'', ''total'']
      then (case py_float L (dict_get e ''text'' PNone) of
              Inl err \<Rightarrow> if err = ValueError \<or> err = TypeError then Inr None else Inl err
            | Inr x \<Rightarrow>
                bind_err (FieldAudit L (PFloat x) (dict_get e ''score'' (PFloat 0)) (Some page1)
                            pv vv (Some vf))
                  (\<lambda>fa. Inr (Some fa)))
      else bind_err (FieldAudit L (dict_get e ''text'' PNone) (dict_get e ''score'' (PFloat 0))
                       (Some page1) pv vv (Some vf))
             (\<lambda>fa. Inr (Some fa)))"
  by (simp add: create_field_audit_b_def py_contains_def py_getitem_def py_get_def)

lemma create_field_audit_b_wf:
  assumes "wf_entry_b L d (vf, cf)"
  shows "\<exists>a. create_field_audit_b L pv vv (PDict d) vf cf = Inr a"
proof (cases "map_of d vf")
  case None
  then show ?thesis by (simp add: create_field_audit_b_absent)
next
  case (Some x)
  with assms obtain e where e: "x = PDict e"
    and c: "wf_confidence L (dict_get e ''score'' (PFloat 0))"
    and o: "cf \<in> set [''subtotal'', ''tax'', ''total'']
              \<longrightarrow> py_float L (dict_get e ''text'' PNone) \<noteq> Inl OverflowError"
    by (auto simp: wf_entry_b_def split: pyval.splits)
  have F: "\<exists>a. bind_err (FieldAudit L v (dict_get e ''score'' (PFloat 0)) (Some page1) pv vv
                         (Some vf)) (\<lambda>fa. Inr (Some fa)) = Inr a" for v
  proof -
    from FieldAudit_wf [OF c] obtain fa where
      "FieldAudit L v (dict_get e ''score'' (PFloat 0)) (Some page1) pv vv (Some vf) = Inr fa"
      by blast
    then show ?thesis by simp
  qed
  show ?thesis
  proof (cases "cf \<in> set [''subtotal'', ''tax'', ''total'']")
    case False
    then show ?thesis using Some e F by (simp add: create_field_audit_b_present)
  next
    case True
    show ?thesis
    proof (cases "py_float L (dict_get e ''text'' PNone)")
      case (Inl err)
      with o True py_float_errors [OF Inl] have "err = ValueError \<or> err = TypeError" by auto
      then show ?thesis using Some e Inl True by (auto simp: create_field_audit_b_present)
    next
      case (Inr x)
      then show ?thesis using Some e F True by (simp add: create_field_audit_b_present)
    qed
  qed
qed

lemma audits_b_ok:
  "audits_b L pv vv fin ns = Inr m \<Longrightarrow> map_of m n = Some fa \<Longrightarrow> audit_ok fa"
proof (induction ns arbitrary: m)
  case Nil
  then show ?case by simp
next
  case (Cons k ks)
  obtain vf cf where k: "k = (vf, cf)" by (cases k)
  from Cons.prems(1) k obtain a m' where
    a: "create_field_audit_b L pv vv fin vf cf = Inr a" and
    m': "audits_b L pv vv fin ks = Inr m'" and
    m: "m = (case a of Some fa \<Rightarrow> (cf, fa) # m' | None \<Rightarrow> m')"
    by (auto simp: bind_err_Inr_iff)
  show ?case
  proof (cases a)
    case None
    with m Cons.IH [OF m'] Cons.prems(2) show ?thesis by simp
  next
    case (Some fa0)
    with m Cons.IH [OF m'] Cons.prems(2) create_field_audit_b_ok a show ?thesis
      by (auto split: if_splits)
  qed
qed

lemma audits_b_keys:
  "audits_b L pv vv fin ns = Inr m \<Longrightarrow> fst ` set m \<subseteq> snd ` set ns"
proof (induction ns arbitrary: m)
  case Nil
  then show ?case by simp
next
  case (Cons k ks)
  obtain vf cf where k: "k = (vf, cf)" by (cases k)
  from Cons.prems(1) k obtain a m' where
    m': "audits_b L pv vv fin ks = Inr m'" and
    m: "m = (case a of Some fa \<Rightarrow> (cf, fa) # m' | None \<Rightarrow> m')"
    by (auto simp: bind_err_Inr_iff)
  from Cons.IH [OF m'] m k show ?case by (cases a) auto
qed

lemma audits_b_lookup:
  assumes "audits_b L pv vv fin ns = Inr m" and "distinct (map snd ns)" and "(vf, cf) \<in> set ns"
  shows "create_field_audit_b L pv vv fin vf cf = Inr (map_of m cf)"
  using assms
proof (induction ns arbitrary: m)
  case Nil
  then show ?case by simp
next
  case (Cons k ks)
  obtain vf0 cf0 where k: "k = (vf0, cf0)" by (cases k)
  from Cons.prems(1) k obtain a m' where
    a: "create_field_audit_b L pv vv fin vf0 cf0 = Inr a" and
    m': "audits_b L pv vv fin ks = Inr m'" and
    m: "m = (case a of Some fa \<Rightarrow> (cf0, fa) # m' | None \<Rightarrow> m')"
    by (auto simp: bind_err_Inr_iff)
  from Cons.prems(2) k have d: "distinct (map snd ks)" and nin: "cf0 \<notin> snd ` set ks" by auto
  from audits_b_keys [OF m'] nin have none: "map_of m' cf0 = None"
    by (auto simp: map_of_eq_None_iff)
  show ?case
  proof (cases "(vf, cf) = (vf0, cf0)")
    case True
    then show ?thesis using a m none by (cases a) auto
  next
    case False
    with Cons.prems(3) k have mem: "(vf, cf) \<in> set ks" by auto
    then have "cf \<noteq> cf0" using nin by force
    then have "map_of m cf = map_of m' cf" using m by (cases a) auto
    then show ?thesis using Cons.IH [OF m' d mem] by simp
  qed
qed

lemma audits_b_wf:
  assumes "list_all (wf_entry_b L d) ns"
  shows "\<exists>m. audits_b L pv vv (PDict d) ns = Inr m"
  using assms
proof (induction ns)
  case Nil
  then show ?case by simp
next
  case (Cons k ks)
  obtain vf cf where k: "k = (vf, cf)" by (cases k)
  from Cons obtain m' where m': "audits_b L pv vv (PDict d) ks = Inr m'" by auto
  from Cons.prems k have "wf_entry_b L d (vf, cf)" by simp
  from create_field_audit_b_wf [OF this] obtain a where
    "create_field_audit_b L pv vv (PDict d) vf cf = Inr a" by blast
  then show ?case using m' k by simp
qed

subsection \<open>The normalizer and the pipeline\<close>

lemma normalize_vendor_b_ok:
  assumes "normalize_vendor_b L pv now output did vn vv = Inr r"
  shows "invoice_ok r"
proof -
  from assms obtain fin lis m where
    m: "audits_b L pv vv fin field_mapping = Inr m" and
    lis: "line_items_b L pv vv output = Inr lis" and
    r: "InvoiceSchema L did now vn output (map_of m) lis = Inr r"
    by (auto simp: normalize_vendor_b_def bind_err_Inr_iff)
  show ?thesis
  proof (rule InvoiceSchema_invoice_ok [OF r])
    fix n fa assume "map_of m n = Some fa"
    then show "audit_ok fa" using audits_b_ok [OF m] by blast
  next
    fix xs assume "lis = Some xs"
    then show "list_all (\<lambda>li. audit_ok (audit li)) xs" using line_items_b_ok lis by blast
  qed
qed

lemma normalize_ok:
  assumes "normalize L pv now output vn vv = Inr r"
  shows "invoice_ok r"
  using assms normalize_vendor_a_ok normalize_vendor_b_ok
  by (auto simp: normalize_def Let_def split: if_splits)

lemma line_items_b_wf:
  assumes "dict_get output ''extracted_data'' (PDict []) = PDict ed"
    and "case dict_get ed ''items'' (PList []) of
           PList items \<Rightarrow>
             list_all (wf_item L ''desc'' ''qty'' ''price'' ''line_total'' ''score'') items
         | v \<Rightarrow> \<not> truthy v"
  shows "\<exists>lis. line_items_b L pv vv output = Inr lis"
proof (cases "truthy (dict_get ed ''items'' (PList []))")
  case False
  then show ?thesis using assms(1) by (simp add: line_items_b_def py_get_def)
next
  case True
  with assms(2) obtain items where v: "dict_get ed ''items'' (PList []) = PList items"
    and w: "list_all (wf_item L ''desc'' ''qty'' ''price'' ''line_total'' ''score'') items"
    by (cases "dict_get ed ''items'' (PList [])") auto
  have "\<forall>x \<in> set items. \<exists>y. line_item_b L pv vv x = Inr y"
    using w line_item_b_wf by (auto simp: list_all_iff)
  from map_err_returns [OF this] obtain ys where "map_err (line_item_b L pv vv) items = Inr ys" ..
  then show ?thesis using assms(1) v True
    by (simp add: line_items_b_def py_get_def py_iter_def)
qed

lemma distinct_field_mapping: "distinct (map snd field_mapping)"
  by (simp add: field_mapping_def)

lemma normalize_vendor_b_wf:
  assumes "wf_vendor_b L output"
  shows "\<exists>r m d ed.
           normalize_vendor_b L pv now output (document_id output) vn vv = Inr r
           \<and> dict_get output ''extracted_data'' (PDict []) = PDict ed
           \<and> dict_get ed ''financial'' (PDict []) = PDict d
           \<and> audits_b L pv vv (PDict d) field_mapping = Inr m
           \<and> subtotal r = map_of m ''subtotal'' \<and> tax r = map_of m ''tax''
           \<and> total_fld r = map_of m ''total''"
proof -
  from assms obtain ed d where
    did: "pyd_str L (document_id output) \<noteq> None" and
    ed: "dict_get output ''extracted_data'' (PDict []) = PDict ed" and
    d: "dict_get ed ''financial'' (PDict []) = PDict d" and
    es: "list_all (wf_entry_b L d) field_mapping" and
    li: "case dict_get ed ''items'' (PList []) of
           PList items \<Rightarrow>
             list_all (wf_item L ''desc'' ''qty'' ''price'' ''line_total'' ''score'') items
         | v \<Rightarrow> \<not> truthy v"
    by (auto simp: wf_vendor_b_def split: pyval.splits)
  from line_items_b_wf [OF ed li] obtain lis where lis: "line_items_b L pv vv output = Inr lis"
    by blast
  from audits_b_wf [OF es] obtain m where
    m: "audits_b L pv vv (PDict d) field_mapping = Inr m" by blast
  from did obtain i where i: "pyd_str L (document_id output) = Some i" by auto
  let ?r = "\<lparr>invoice_number = map_of m ''invoice_number'',
               invoice_date = map_of m ''invoice_date'',
               supplier_name = map_of m ''supplier_name'',
               supplier_id = map_of m ''supplier_id'',
               currency = map_of m ''currency'',
               subtotal = map_of m ''subtotal'',
               tax = map_of m ''tax'',
               total_fld = map_of m ''total'',
               po_number = map_of m ''po_number'',
               line_items = lis,
               doc_id = i,
               extraction_timestamp = now,
               vendor_name = vn,
               raw_vendor_output = output\<rparr>"
  have r: "normalize_vendor_b L pv now output (document_id output) vn vv = Inr ?r"
    using lis m ed d i by (simp add: normalize_vendor_b_def InvoiceSchema_def py_get_def)
  show ?thesis using r ed d m by auto
qed

lemma float_slot_ready:
  assumes "\<exists>x. fa_value fa = PFloat x"
  shows "float_ready L (fa_value fa)" "fa_value fa = PNone \<or> float_ready L (fa_value fa)"
  using assms by (auto simp: float_ready_def)

lemma normalize_vendor_b_ready:
  assumes "wf_vendor_b L output"
  shows "\<exists>r. normalize_vendor_b L pv now output (document_id output) vn vv = Inr r
            \<and> reconciliation_ready L r \<and> threshold_ready L r"
proof -
  from normalize_vendor_b_wf [OF assms, of pv now vn vv] obtain r m d where
    r: "normalize_vendor_b L pv now output (document_id output) vn vv = Inr r" and
    m: "audits_b L pv vv (PDict d) field_mapping = Inr m" and
    s: "subtotal r = map_of m ''subtotal''" "tax r = map_of m ''tax''"
       "total_fld r = map_of m ''total''"
    by blast
  have fl: "\<exists>x. fa_value fa = PFloat x"
    if "map_of m cf = Some fa" and "(vf, cf) \<in> set field_mapping"
      and "cf \<in> set [''subtotal'', ''tax'', ''total'']" for vf cf fa
  proof -
    from audits_b_lookup [OF m distinct_field_mapping that(2)] that(1)
    have "create_field_audit_b L pv vv (PDict d) vf cf = Inr (Some fa)" by simp
    from create_field_audit_b_numeric [OF this that(3)] show ?thesis .
  qed
  have f1: "subtotal r = Some fa \<Longrightarrow> \<exists>x. fa_value fa = PFloat x" for fa
    using fl [of "''subtotal''" fa "''amount_before_tax''"] s by (simp add: field_mapping_def)
  have f2: "tax r = Some fa \<Longrightarrow> \<exists>x. fa_value fa = PFloat x" for fa
    using fl [of "''tax''" fa "''tax_amount''"] s by (simp add: field_mapping_def)
  have f3: "total_fld r = Some fa \<Longrightarrow> \<exists>x. fa_value fa = PFloat x" for fa
    using fl [of "''total''" fa "''amount_due''"] s by (simp add: field_mapping_def)
  have rr: "reconciliation_ready L r"
    using f1 f2 f3 by (auto simp: reconciliation_ready_def float_ready_def split: option.splits)
  have tr: "threshold_ready L r"
    using f3 by (auto simp: threshold_ready_def float_ready_def split: option.splits)
  from r rr tr show ?thesis by blast
qed

lemma normalize_wf:
  assumes "wf_vendor_output L vn output"
  shows "\<exists>r. normalize L pv now output vn vv = Inr r
            \<and> reconciliation_ready L r \<and> threshold_ready L r"
proof (cases "vn = ''vendor_b''")
  case True
  with assms have "wf_vendor_b L output" by (simp add: wf_vendor_output_def)
  from normalize_vendor_b_ready [OF this, of pv now vn vv] True show ?thesis
    by (simp add: normalize_def Let_def)
next
  case False
  with assms have "wf_vendor_a L output" by (simp add: wf_vendor_output_def)
  from normalize_vendor_a_wf [OF this, of pv now vn vv] False show ?thesis
    by (auto simp: normalize_def Let_def)
qed

lemma of_slot_not_other: "of_slot s \<noteq> AttrOther"
  by (cases s) (simp_all add: of_slot_def)

lemma wf_required_getattr:
  assumes "wf_required L V"
  shows "list_all (\<lambda>f. getattr L r f \<noteq> AttrOther) (required_fields V)"
  unfolding list_all_iff
proof
  fix f assume "f \<in> set (required_fields V)"
  with assms have c: "f \<in> set canonical_fields
            \<or> (f \<notin> set [''line_items'', ''doc_id'', ''extraction_timestamp'', ''vendor_name'',
                         ''raw_vendor_output'']
               \<and> \<not> model_attr L f)"
    by (simp add: wf_required_def list_all_iff)
  then show "getattr L r f \<noteq> AttrOther"
  proof
    assume "f \<in> set canonical_fields"
    then show ?thesis
      by (auto simp: canonical_fields_def getattr_def of_slot_not_other)
  next
    assume "f \<notin> set [''line_items'', ''doc_id'', ''extraction_timestamp'', ''vendor_name'',
                         ''raw_vendor_output''] \<and> \<not> model_attr L f"
    then show ?thesis
      by (simp add: getattr_def of_slot_not_other)
  qed
qed


subsection \<open>When the validator returns\<close>

lemma missing_fields_Inr:
  "missing_fields L invoice fs = Inr ms \<Longrightarrow> list_all (\<lambda>f. getattr L invoice f \<noteq> AttrOther) fs"
  by (induction fs arbitrary: ms) (auto simp: bind_err_Inr_iff split: attr.splits if_splits)

lemma float_or_zero_Inr:
  "float_or_zero L v = Inr x \<Longrightarrow> \<not> truthy v \<or> float_ready L v"
  by (auto simp: float_or_zero_def float_ready_iff split: if_splits)

lemma check_reconciliation_Inr:
  "check_reconciliation L V invoice errs = Inr r \<Longrightarrow> reconciliation_ready L invoice"
  by (auto simp: check_reconciliation_def reconciliation_ready_def bind_err_Inr_iff
        dest!: float_or_zero_Inr split: option.splits)

lemma check_total_threshold_Inr:
  "check_total_threshold L V invoice warns = Inr r \<Longrightarrow> threshold_ready L invoice"
  by (auto simp: check_total_threshold_def threshold_ready_def bind_err_Inr_iff float_ready_iff
        split: option.splits if_splits)

lemma validate_Inr_ready:
  assumes "validate L V invoice = Inr r"
  shows "validate_ready L V invoice"
proof -
  from assms obtain c1 e1 c4 e4 c5 w5 where
    h1: "check_required_fields L V invoice [] = Inr (c1, e1)" and
    h4: "check_reconciliation L V invoice
             (snd (check_currency L invoice (snd (check_date_format L invoice e1)))) = Inr (c4, e4)" and
    h5: "check_total_threshold L V invoice [] = Inr (c5, w5)"
    unfolding validate_Inr_iff by blast
  from h1 obtain ms where "missing_fields L invoice (required_fields V) = Inr ms"
    by (auto simp: check_required_fields_def bind_err_Inr_iff)
  from missing_fields_Inr [OF this] check_reconciliation_Inr [OF h4] check_total_threshold_Inr [OF h5]
  show ?thesis by (simp add: validate_ready_def)
qed

subsection \<open>Reason codes, tolerances and the threshold\<close>

lemma low_confidence_not_in_other_codes:
  "''LOW_CONFIDENCE'' \<notin> set (failure_codes validation)"
  "''LOW_CONFIDENCE'' \<notin> set (policy_codes validation)"
  by (simp_all add: failure_codes_def policy_codes_def)

lemma tolerance_for_default: "tolerance_for default_validator cur = round_double 0.01"
  by (simp add: tolerance_for_def default_validator_def Validator_def)

lemma tolerance_for_threshold_indep:
  "tolerance_for (V\<lparr>high_total_threshold := h\<rparr>) = tolerance_for V"
  by (simp add: tolerance_for_def fun_eq_iff)

lemma check_total_threshold_indep:
  "map_sum id (\<lambda>r. ()) (check_total_threshold L (V\<lparr>high_total_threshold := h\<rparr>) invoice warns)
     = map_sum id (\<lambda>r. ()) (check_total_threshold L V invoice warns)"
proof (cases "total_fld invoice")
  case None
  then show ?thesis by (simp add: check_total_threshold_def)
next
  case (Some fa)
  show ?thesis
  proof (cases "py_float L (fa_value fa)")
    case (Inl e)
    then show ?thesis using Some by (simp add: check_total_threshold_def)
  next
    case (Inr t)
    then show ?thesis using Some by (simp add: check_total_threshold_def)
  qed
qed

lemma validate_threshold_indep:
  "map_sum id (\<lambda>r. (passed r, errors r)) (validate L (V\<lparr>high_total_threshold := h\<rparr>) invoice)
     = map_sum id (\<lambda>r. (passed r, errors r)) (validate L V invoice)"
proof -
  have 1: "check_required_fields L (V\<lparr>high_total_threshold := h\<rparr>) invoice e
             = check_required_fields L V invoice e" for e
    by (simp add: check_required_fields_def)
  have 2: "check_reconciliation L (V\<lparr>high_total_threshold := h\<rparr>) invoice e
             = check_reconciliation L V invoice e" for e
    unfolding check_reconciliation_def tolerance_for_threshold_indep ..
  have 3: "map_sum id (\<lambda>r. ()) (check_total_threshold L (V\<lparr>high_total_threshold := h\<rparr>) invoice [])
             = map_sum id (\<lambda>r. ()) (check_total_threshold L V invoice [])"
    by (rule check_total_threshold_indep)
  show ?thesis
  proof (cases "check_required_fields L V invoice []")
    case (Inl e)
    then show ?thesis by (simp add: validate_def 1)
  next
    case r1: (Inr r1)
    show ?thesis
    proof (cases "check_reconciliation L V invoice
        (snd (check_currency L invoice (snd (check_date_format L invoice (snd r1)))))")
      case (Inl e)
      then show ?thesis using r1 by (simp add: validate_def 1 2 Let_def)
    next
      case r4: (Inr r4)
      show ?thesis
      proof (cases "check_total_threshold L V invoice []")
        case (Inl e)
        with 3 have "\<exists>e'. check_total_threshold L (V\<lparr>high_total_threshold := h\<rparr>) invoice [] = Inl e'"
          by (cases "check_total_threshold L (V\<lparr>high_total_threshold := h\<rparr>) invoice []") auto
        then obtain e' where e': "check_total_threshold L (V\<lparr>high_total_threshold := h\<rparr>) invoice [] = Inl e'" ..
        with 3 Inl have "e' = e" by simp
        with e' Inl r1 r4 show ?thesis by (simp add: validate_def 1 2 Let_def)
      next
        case r5: (Inr r5)
        with 3 obtain r5' where r5': "check_total_threshold L (V\<lparr>high_total_threshold := h\<rparr>) invoice [] = Inr r5'"
          by (cases "check_total_threshold L (V\<lparr>high_total_threshold := h\<rparr>) invoice []") auto
        with r5 r1 r4 show ?thesis by (simp add: validate_def 1 2 Let_def)
      qed
    qed
  qed
qed

subsection \<open>The numeric fields of vendor B\<close>

lemma create_field_audit_b_numeric_text:
  assumes "wf_entry_b L d (vf, cf)" and "cf \<in> set [''subtotal'', ''tax'', ''total'']"
    and "create_field_audit_b L pv vv (PDict d) vf cf = Inr a"
  shows "case (case map_of d vf of Some (PDict e) \<Rightarrow> Some (dict_get e ''text'' PNone)
               | _ \<Rightarrow> None) of
           None \<Rightarrow> a = None
         | Some v \<Rightarrow>
             (case py_float L v of
                Inl err \<Rightarrow> a = None
              | Inr x \<Rightarrow> (\<exists>fa. a = Some fa \<and> fa_value fa = PFloat x))"
proof (cases "map_of d vf")
  case None
  then show ?thesis using assms(3) by (simp add: create_field_audit_b_absent)
next
  case (Some y)
  with assms(1) obtain e where e: "y = PDict e"
    by (auto simp: wf_entry_b_def split: pyval.splits)
  show ?thesis
  proof (cases "py_float L (dict_get e ''text'' PNone)")
    case (Inl err)
    then show ?thesis using Some e assms(2,3)
      by (auto simp: create_field_audit_b_present split: if_splits)
  next
    case (Inr x)
    with Some e assms(2,3) obtain fa where
      "FieldAudit L (PFloat x) (dict_get e ''score'' (PFloat 0)) (Some page1) pv vv (Some vf)
         = Inr fa" and "a = Some fa"
      by (auto simp: create_field_audit_b_present bind_err_Inr_iff)
    with FieldAudit_audit_ok [OF this(1)] Some e Inr show ?thesis by simp
  qed
qed

section \<open>Evaluating the examples\<close>

lemmas route_eval =
  route_def low_confidence_fields.simps confidence_scores.simps critical_fields_def getattr_def
  of_slot_def RoutingDecision_def check_failed_def upper_def is_ascii_def upper_char_def
  default_validator_def Validator_def example_invoice_def empty_invoice_def audit_of_def
  all_passed_def Let_def

lemmas invoice_ok_eval =
  invoice_ok_def slot_ok_def audit_ok_def example_invoice_def empty_invoice_def audit_of_def

lemmas validate_eval =
  validate_def check_required_fields_def getattr_def of_slot_def
  check_date_format_def check_currency_def valid_currencies_def check_reconciliation_def
  float_or_zero_def reconciliation_currency_def tolerance_for_def check_total_threshold_def
  check_po_present_def py_str_def upper_def is_ascii_def upper_char_def replace_Z_def
  example_lib_def is_ymd_def digit_val_def float_int_bound_def
  default_validator_def Validator_def example_invoice_def empty_invoice_def audit_of_def Let_def

lemmas threshold_eval =
  check_total_threshold_def example_invoice_def empty_invoice_def audit_of_def
  default_validator_def Validator_def

lemmas normalize_eval =
  normalize_def document_id_def dict_get_def normalize_vendor_a_def normalize_vendor_b_def
  line_items_a_def line_items_b_def py_iter_def line_item_a_def line_item_b_def py_get_def
  FieldAudit_def LineItem_def pyd_float_def pyd_str_def pyd_opt_float_def InvoiceSchema_def
  canonical_fields_def field_mapping_def create_field_audit_a_def create_field_audit_b_def
  py_contains_def py_getitem_def page1_def entry_a_def entry_b_def
  example_lib_def decimal_of_str_def digit_val_def float_int_bound_def Let_def

lemmas wf_eval =
  wf_vendor_output_def wf_vendor_a_def wf_vendor_b_def wf_entry_a_def wf_entry_b_def
  wf_value_a_def wf_item_def wf_confidence_def wf_opt_float_def wf_required_def float_ready_def
  document_id_def dict_get_def pyd_float_def pyd_str_def canonical_fields_def field_mapping_def
  entry_a_def entry_b_def default_validator_def Validator_def example_lib_def
  decimal_of_str_def digit_val_def float_int_bound_def Let_def

text \<open>The record whose critical confidences are all 0.7: their sum is rounded twice and
  the quotient once, and the score comes out two units in the last place under 0.7.\<close>

lemma threshold_invoice_ok: "invoice_ok threshold_invoice"
  by (simp add: threshold_invoice_def invoice_ok_eval float_eval)

lemma route_threshold_invoice:
  "route example_lib default_validator threshold_invoice all_passed
     = Inr \<lparr>outcome = ''NEEDS_REVIEW'', reason_codes = [],
            confidence_score = 6305039478318693 / 9007199254740992\<rparr>"
  by (simp add: threshold_invoice_def route_eval) ((simp add: float_eval)?)

section \<open>The claims\<close>

text \<open>
  C1 (as the spec states it). The spec says that the pipeline never raises. It does: a
  vendor confidence of 1.5 makes \<^verbatim>\<open>FieldAudit(...)\<close> fail in the normalizer, and a
  total that vendor A reports as the string \<^verbatim>\<open>abc\<close> reaches \<^verbatim>\<open>float\<close> in the
  validator's threshold check.
\<close>

theorem pipeline_raises:
  "pipeline example_lib ''1.0.0'' default_validator 0 bad_confidence_output ''vendor_a'' ''v1''
     = Inl ValidationError
   \<and> normalize example_lib ''1.0.0'' 0 bad_confidence_output ''vendor_a'' ''v1''
     = Inl ValidationError
   \<and> pipeline example_lib ''1.0.0'' default_validator 0 text_total_output ''vendor_a'' ''v1''
     = Inl ValueError"
proof -
  have n1: "normalize example_lib ''1.0.0'' 0 bad_confidence_output ''vendor_a'' ''v1''
     = Inl ValidationError"
    by (simp add: normalize_eval bad_confidence_output_def)
  have n2: "normalize example_lib ''1.0.0'' 0 text_total_output ''vendor_a'' ''v1''
     = Inr (empty_invoice
              \<lparr>total_fld := Some \<lparr>fa_value = PStr ''abc'', confidence = 0.75,
                   evidence = Some page1, pipeline_version = ''1.0.0'', vendor_version = ''v1'',
                   vendor_field_name = Some ''total''\<rparr>,
               doc_id := ''INV-3'', raw_vendor_output := text_total_output\<rparr>)"
    by (simp add: normalize_eval text_total_output_def empty_invoice_def)
  have v2: "validate example_lib default_validator
            (empty_invoice
              \<lparr>total_fld := Some \<lparr>fa_value = PStr ''abc'', confidence = 0.75,
                   evidence = Some page1, pipeline_version = ''1.0.0'', vendor_version = ''v1'',
                   vendor_field_name = Some ''total''\<rparr>,
               doc_id := ''INV-3'', raw_vendor_output := text_total_output\<rparr>) = Inl ValueError"
    by (simp add: validate_eval decimal_of_str_def) ((simp add: float_eval)?)
  show ?thesis using n1 n2 v2 by (simp add: pipeline_def)
qed

text \<open>
  C1 (amended). On well-formed vendor output, with a validator whose required fields
  name slots of the record, \<open>normalize\<close>, \<open>validate\<close> and \<open>route\<close> all return, and the
  pipeline produces a routing decision.
\<close>

theorem pipeline_returns:
  assumes "wf_vendor_output L vn output" and "wf_required L V"
  shows "\<exists>d. pipeline L pv V now output vn vv = Inr d"
proof -
  from normalize_wf [OF assms(1), of pv now vv] obtain r where
    r: "normalize L pv now output vn vv = Inr r" and
    rr: "reconciliation_ready L r" and tr: "threshold_ready L r" by blast
  have "validate_ready L V r"
    using wf_required_getattr [OF assms(2)] rr tr by (simp add: validate_ready_def)
  from validate_returns [OF this] obtain res where res: "validate L V r = Inr res" ..
  from route_returns [OF normalize_ok [OF r]] have "\<exists>d. route L V r res = Inr d" by blast
  then show ?thesis using r res by (simp add: pipeline_def)
qed

theorem pipeline_returns_witness:
  "wf_vendor_output example_lib ''vendor_a'' example_output_a
   \<and> wf_vendor_output example_lib ''vendor_b'' example_output_b
   \<and> wf_required example_lib default_validator
   \<and> (\<exists>d. pipeline example_lib ''1.0.0'' default_validator 0 example_output_a ''vendor_a'' ''v1''
            = Inr d)
   \<and> (\<exists>d. pipeline example_lib ''1.0.0'' default_validator 0 example_output_b ''vendor_b'' ''v1''
            = Inr d)"
proof -
  have a: "wf_vendor_output example_lib ''vendor_a'' example_output_a"
    by (simp add: wf_eval example_output_a_def)
  have b: "wf_vendor_output example_lib ''vendor_b'' example_output_b"
    by (simp add: wf_eval example_output_b_def)
  have r: "wf_required example_lib default_validator"
    by (simp add: wf_eval)
  from a b r pipeline_returns [OF a r] pipeline_returns [OF b r] show ?thesis by blast
qed

text \<open>
  C2. For every invoice record (one that keeps the schema's invariant) and every
  validation result, \<open>route\<close> returns a decision whose outcome is \<^verbatim>\<open>AUTO_POST\<close> if and
  only if its list of reason codes is empty and its confidence score is at least
  \<open>low_confidence_threshold\<close>; every other outcome is \<^verbatim>\<open>NEEDS_REVIEW\<close>.
\<close>

theorem route_auto_post_iff:
  assumes "invoice_ok invoice"
  shows "\<exists>d. route L V invoice validation = Inr d
           \<and> (outcome d = ''AUTO_POST''
                \<longleftrightarrow> reason_codes d = [] \<and> low_confidence_threshold V \<le> confidence_score d)
           \<and> (outcome d \<noteq> ''AUTO_POST'' \<longrightarrow> outcome d = ''NEEDS_REVIEW'')"
  using route_returns [OF assms, of L V validation] by simp

theorem route_auto_post_iff_witness:
  "invoice_ok (example_invoice 108) \<and> invoice_ok empty_invoice \<and> invoice_ok threshold_invoice
   \<and> low_confidence_threshold default_validator = 3152519739159347 / 4503599627370496
   \<and> route example_lib default_validator (example_invoice 108) all_passed
       = Inr \<lparr>outcome = ''AUTO_POST'', reason_codes = [], confidence_score = 7 / 8\<rparr>
   \<and> route example_lib default_validator empty_invoice all_passed
       = Inr \<lparr>outcome = ''NEEDS_REVIEW'', reason_codes = [], confidence_score = 0\<rparr>
   \<and> route example_lib default_validator (example_invoice 108) (all_passed\<lparr>passed := False\<rparr>)
       = Inr \<lparr>outcome = ''NEEDS_REVIEW'', reason_codes = [''VALIDATION_FAILED''],
              confidence_score = 7 / 8\<rparr>
   \<and> route example_lib default_validator threshold_invoice all_passed
       = Inr \<lparr>outcome = ''NEEDS_REVIEW'', reason_codes = [],
              confidence_score = 6305039478318693 / 9007199254740992\<rparr>"
proof -
  have a: "invoice_ok (example_invoice 108)" and b: "invoice_ok empty_invoice"
    by (simp_all add: invoice_ok_eval)
  have c: "invoice_ok threshold_invoice" by (rule threshold_invoice_ok)
  have 1: "route example_lib default_validator (example_invoice 108) all_passed
       = Inr \<lparr>outcome = ''AUTO_POST'', reason_codes = [], confidence_score = 7 / 8\<rparr>"
    using route_auto_post_iff [OF a, of example_lib default_validator all_passed]
    by (simp add: route_eval) ((simp add: float_eval)?)
  have 2: "route example_lib default_validator empty_invoice all_passed
       = Inr \<lparr>outcome = ''NEEDS_REVIEW'', reason_codes = [], confidence_score = 0\<rparr>"
    using route_auto_post_iff [OF b, of example_lib default_validator all_passed]
    by (simp add: route_eval) ((simp add: float_eval)?)
  have 3: "route example_lib default_validator (example_invoice 108) (all_passed\<lparr>passed := False\<rparr>)
       = Inr \<lparr>outcome = ''NEEDS_REVIEW'', reason_codes = [''VALIDATION_FAILED''],
              confidence_score = 7 / 8\<rparr>"
    by (simp add: route_eval) ((simp add: float_eval)?)
  have 4: "route example_lib default_validator threshold_invoice all_passed
       = Inr \<lparr>outcome = ''NEEDS_REVIEW'', reason_codes = [],
              confidence_score = 6305039478318693 / 9007199254740992\<rparr>"
    using route_auto_post_iff [OF c, of example_lib default_validator all_passed]
    by (simp add: route_threshold_invoice)
  have t: "low_confidence_threshold default_validator = 3152519739159347 / 4503599627370496"
    by (simp add: default_validator_def Validator_def round_double_literals)
  from a b c t 1 2 3 4 show ?thesis by simp
qed

text \<open>
  C3 (as the spec states it). The spec says that a critical field whose slot is absent
  is collected as a low-confidence field. The router does not collect it: a record
  without a total gets no \<^verbatim>\<open>LOW_CONFIDENCE\<close> code, and is auto-posted under a
  validator that does not require the total.
\<close>

theorem absent_critical_field_is_not_collected:
  "total_fld invoice_without_total = None
   \<and> bind_err (validate example_lib lenient_validator invoice_without_total)
        (route example_lib lenient_validator invoice_without_total)
     = Inr \<lparr>outcome = ''AUTO_POST'', reason_codes = [], confidence_score = 13 / 16\<rparr>
   \<and> bind_err (validate example_lib default_validator invoice_without_total)
        (route example_lib default_validator invoice_without_total)
     = Inr \<lparr>outcome = ''NEEDS_REVIEW'',
            reason_codes = [''VALIDATION_FAILED'', ''MISSING_REQUIRED_FIELDS''],
            confidence_score = 13 / 16\<rparr>"
proof -
  have 1: "validate example_lib lenient_validator invoice_without_total = Inr all_passed"
    by (simp add: validate_eval invoice_without_total_def lenient_validator_def all_passed_def) ((simp add: float_eval)?)
  have 2: "route example_lib lenient_validator invoice_without_total all_passed
     = Inr \<lparr>outcome = ''AUTO_POST'', reason_codes = [], confidence_score = 13 / 16\<rparr>"
    by (simp add: route_eval invoice_without_total_def lenient_validator_def) ((simp add: float_eval)?)
  have 3: "bind_err (validate example_lib default_validator invoice_without_total)
        (route example_lib default_validator invoice_without_total)
     = Inr \<lparr>outcome = ''NEEDS_REVIEW'',
            reason_codes = [''VALIDATION_FAILED'', ''MISSING_REQUIRED_FIELDS''],
            confidence_score = 13 / 16\<rparr>"
    by (simp add: validate_eval route_eval invoice_without_total_def) ((simp add: float_eval)?)
  have 4: "total_fld invoice_without_total = None"
    by (simp add: invoice_without_total_def)
  from 1 2 3 4 show ?thesis by simp
qed

text \<open>
  C3 (amended). The router collects the critical fields whose slot is present with a
  confidence under the threshold, in the order invoice_number, total, invoice_date; when
  there is one, it appends \<^verbatim>\<open>LOW_CONFIDENCE\<close> and then the one code
  \<^verbatim>\<open>LOW_CONF_\<close> followed by their upper-cased names joined with underscores, between
  the codes of the validation failures and those of the policy checks.
\<close>

theorem route_low_confidence_codes:
  assumes "invoice_ok invoice"
  shows "\<exists>d. route L V invoice validation = Inr d
           \<and> reason_codes d =
               failure_codes validation
               @ (if present_below V invoice = [] then []
                  else [''LOW_CONFIDENCE'',
                        ''LOW_CONF_'' @ upper L (join ''_'' (present_below V invoice))])
               @ policy_codes validation
           \<and> (''LOW_CONFIDENCE'' \<in> set (reason_codes d) \<longleftrightarrow> present_below V invoice \<noteq> [])"
  using route_returns [OF assms, of L V validation] low_confidence_not_in_other_codes
  by (simp add: low_confidence_codes_def)

theorem route_low_confidence_codes_witness:
  "invoice_ok ((example_invoice 108)\<lparr>invoice_number := Some (audit_of (PStr ''A-17'') 0.5),
                 total_fld := Some (audit_of (PFloat 108) 0.25),
                 invoice_date := Some (audit_of (PStr ''2024-01-15'') 0.625)\<rparr>)
   \<and> present_below default_validator
        ((example_invoice 108)\<lparr>invoice_number := Some (audit_of (PStr ''A-17'') 0.5),
                 total_fld := Some (audit_of (PFloat 108) 0.25),
                 invoice_date := Some (audit_of (PStr ''2024-01-15'') 0.625)\<rparr>)
       = [''invoice_number'', ''total'', ''invoice_date'']
   \<and> map_sum id reason_codes
       (route example_lib default_validator
          ((example_invoice 108)\<lparr>invoice_number := Some (audit_of (PStr ''A-17'') 0.5),
                 total_fld := Some (audit_of (PFloat 108) 0.25),
                 invoice_date := Some (audit_of (PStr ''2024-01-15'') 0.625)\<rparr>) all_passed)
       = Inr [''LOW_CONFIDENCE'', ''LOW_CONF_INVOICE_NUMBER_TOTAL_INVOICE_DATE'']
   \<and> present_below default_validator
        ((example_invoice 108)\<lparr>invoice_number := None,
             invoice_date := Some (audit_of (PStr ''2024-01-15'') 0.625)\<rparr>) = [''invoice_date'']"
proof -
  let ?inv = "(example_invoice 108)\<lparr>invoice_number := Some (audit_of (PStr ''A-17'') 0.5),
                 total_fld := Some (audit_of (PFloat 108) 0.25),
                 invoice_date := Some (audit_of (PStr ''2024-01-15'') 0.625)\<rparr>"
  have a: "invoice_ok ?inv" by (simp add: invoice_ok_eval)
  have p: "present_below default_validator ?inv = [''invoice_number'', ''total'', ''invoice_date'']"
    by (simp add: present_below_def critical_slots_def default_validator_def Validator_def
          example_invoice_def empty_invoice_def audit_of_def float_eval)
  have q: "present_below default_validator
        ((example_invoice 108)\<lparr>invoice_number := None,
             invoice_date := Some (audit_of (PStr ''2024-01-15'') 0.625)\<rparr>) = [''invoice_date'']"
    by (simp add: present_below_def critical_slots_def default_validator_def Validator_def
          example_invoice_def empty_invoice_def audit_of_def float_eval)
  have f: "failure_codes all_passed = []" "policy_codes all_passed = []"
    by (simp_all add: failure_codes_def policy_codes_def check_failed_def all_passed_def)
  from route_low_confidence_codes [OF a, of example_lib default_validator all_passed] p f
  have "map_sum id reason_codes (route example_lib default_validator ?inv all_passed)
       = Inr [''LOW_CONFIDENCE'', ''LOW_CONF_INVOICE_NUMBER_TOTAL_INVOICE_DATE'']"
    by (auto simp: upper_def is_ascii_def upper_char_def)
  with a p q show ?thesis by simp
qed

text \<open>
  C4 (as the spec states it). The spec says that every vendor shape coerces subtotal,
  tax and total to floating point and drops the field when that fails. Vendor A's shape
  (and the fallback) stores the value as the vendor gives it: the string \<^verbatim>\<open>abc\<close>
  stays in the total's slot.
\<close>

theorem vendor_a_keeps_text_total:
  "map_sum id total_fld
     (normalize example_lib ''1.0.0'' 0 text_total_output ''vendor_a'' ''v1'')
   = Inr (Some \<lparr>fa_value = PStr ''abc'', confidence = 0.75, evidence = Some page1,
                pipeline_version = ''1.0.0'', vendor_version = ''v1'',
                vendor_field_name = Some ''total''\<rparr>)
   \<and> py_float example_lib (PStr ''abc'') = Inl ValueError"
  by (simp add: normalize_eval text_total_output_def)

text \<open>
  C4 (amended). In vendor B's shape, on well-formed output, \<open>normalize\<close> returns a record
  in which each of subtotal, tax and total holds \<^verbatim>\<open>float\<close> of the vendor's text when
  that conversion succeeds, and is absent when the conversion fails or the vendor has no
  entry; a failed conversion is no error and raises nothing.
\<close>

theorem vendor_b_numeric_fields:
  assumes "wf_vendor_b L output"
    and "(vf, slot) \<in> set [(''amount_before_tax'', subtotal), (''tax_amount'', tax),
                            (''amount_due'', total_fld)]"
  shows "\<exists>r. normalize L pv now output ''vendor_b'' vv = Inr r
           \<and> (case vendor_b_text output vf of
                 None \<Rightarrow> slot r = None
               | Some v \<Rightarrow>
                   (case py_float L v of
                      Inl err \<Rightarrow> slot r = None
                    | Inr x \<Rightarrow> (\<exists>fa. slot r = Some fa \<and> fa_value fa = PFloat x)))"
proof -
  from normalize_vendor_b_wf [OF assms(1), of pv now "''vendor_b''" vv] obtain r m d ed where
    r: "normalize_vendor_b L pv now output (document_id output) ''vendor_b'' vv = Inr r" and
    ed: "dict_get output ''extracted_data'' (PDict []) = PDict ed" and
    d: "dict_get ed ''financial'' (PDict []) = PDict d" and
    m: "audits_b L pv vv (PDict d) field_mapping = Inr m" and
    s: "subtotal r = map_of m ''subtotal''" "tax r = map_of m ''tax''"
       "total_fld r = map_of m ''total''"
    by blast
  from assms(1) ed d have wf: "list_all (wf_entry_b L d) field_mapping"
    by (simp add: wf_vendor_b_def)
  from assms(2) have "(vf = ''amount_before_tax'' \<and> slot = subtotal)
      \<or> (vf = ''tax_amount'' \<and> slot = tax) \<or> (vf = ''amount_due'' \<and> slot = total_fld)"
    by simp
  then have "\<exists>cf. cf \<in> set [''subtotal'', ''tax'', ''total'']
      \<and> (vf, cf) \<in> set field_mapping \<and> slot r = map_of m cf"
  proof (elim disjE conjE)
    assume "vf = ''amount_before_tax''" "slot = subtotal"
    then show ?thesis using s(1) by (intro exI [of _ "''subtotal''"]) (simp add: field_mapping_def)
  next
    assume "vf = ''tax_amount''" "slot = tax"
    then show ?thesis using s(2) by (intro exI [of _ "''tax''"]) (simp add: field_mapping_def)
  next
    assume "vf = ''amount_due''" "slot = total_fld"
    then show ?thesis using s(3) by (intro exI [of _ "''total''"]) (simp add: field_mapping_def)
  qed
  then obtain cf where cf: "cf \<in> set [''subtotal'', ''tax'', ''total'']"
    and mem: "(vf, cf) \<in> set field_mapping" and sl: "slot r = map_of m cf"
    by blast
  from wf mem have e: "wf_entry_b L d (vf, cf)" by (simp add: list_all_iff)
  from audits_b_lookup [OF m distinct_field_mapping mem]
  have c: "create_field_audit_b L pv vv (PDict d) vf cf = Inr (map_of m cf)" .
  have t: "vendor_b_text output vf =
             (case map_of d vf of Some (PDict e) \<Rightarrow> Some (dict_get e ''text'' PNone) | _ \<Rightarrow> None)"
    using ed d by (simp add: vendor_b_text_def)
  from create_field_audit_b_numeric_text [OF e cf c]
  have p: "case vendor_b_text output vf of
             None \<Rightarrow> slot r = None
           | Some v \<Rightarrow>
               (case py_float L v of
                  Inl err \<Rightarrow> slot r = None
                | Inr x \<Rightarrow> (\<exists>fa. slot r = Some fa \<and> fa_value fa = PFloat x))"
    unfolding t sl .
  have "normalize L pv now output ''vendor_b'' vv = Inr r"
    using r by (simp add: normalize_def Let_def)
  with p show ?thesis by blast
qed

theorem vendor_b_numeric_fields_witness:
  "wf_vendor_b example_lib example_output_b
   \<and> vendor_b_text example_output_b ''amount_due'' = Some (PStr ''108.00'')
   \<and> py_float example_lib (PStr ''108.00'') = Inr 108
   \<and> vendor_b_text example_output_b ''tax_amount'' = Some (PStr ''n/a'')
   \<and> py_float example_lib (PStr ''n/a'') = Inl ValueError
   \<and> (\<exists>r. normalize example_lib ''1.0.0'' 0 example_output_b ''vendor_b'' ''v1'' = Inr r
          \<and> (\<exists>fa. total_fld r = Some fa \<and> fa_value fa = PFloat 108))
   \<and> (\<exists>r. normalize example_lib ''1.0.0'' 0 example_output_b ''vendor_b'' ''v1'' = Inr r
          \<and> tax r = None)
   \<and> map_sum id (\<lambda>r. (subtotal r, tax r, map_option fa_value (total_fld r)))
        (normalize example_lib ''1.0.0'' 0 example_output_b ''vendor_b'' ''v1'')
       = Inr (None, None, Some (PFloat 108))"
proof -
  have w: "wf_vendor_b example_lib example_output_b"
    by (simp add: wf_eval example_output_b_def)
  have t1: "vendor_b_text example_output_b ''amount_due'' = Some (PStr ''108.00'')"
    by (simp add: vendor_b_text_def example_output_b_def dict_get_def entry_b_def)
  have t2: "vendor_b_text example_output_b ''tax_amount'' = Some (PStr ''n/a'')"
    by (simp add: vendor_b_text_def example_output_b_def dict_get_def entry_b_def)
  have f1: "py_float example_lib (PStr ''108.00'') = Inr 108"
    by (simp add: example_lib_def decimal_of_str_def digit_val_def Let_def)
  have f2: "py_float example_lib (PStr ''n/a'') = Inl ValueError"
    by (simp add: example_lib_def decimal_of_str_def digit_val_def Let_def)
  have m1: "(''amount_due'', total_fld) \<in> set [(''amount_before_tax'', subtotal),
      (''tax_amount'', tax), (''amount_due'', total_fld)]"
    by simp
  have m2: "(''tax_amount'', tax) \<in> set [(''amount_before_tax'', subtotal),
      (''tax_amount'', tax), (''amount_due'', total_fld)]"
    by simp
  have 1: "\<exists>r. normalize example_lib ''1.0.0'' 0 example_output_b ''vendor_b'' ''v1'' = Inr r
          \<and> (\<exists>fa. total_fld r = Some fa \<and> fa_value fa = PFloat 108)"
    using vendor_b_numeric_fields [OF w m1, of "''1.0.0''" 0 "''v1''"] by (simp add: t1 f1 del: py_float.simps)
  have 2: "\<exists>r. normalize example_lib ''1.0.0'' 0 example_output_b ''vendor_b'' ''v1'' = Inr r
          \<and> tax r = None"
    using vendor_b_numeric_fields [OF w m2, of "''1.0.0''" 0 "''v1''"] by (simp add: t2 f2 del: py_float.simps)
  have 3: "map_sum id (\<lambda>r. (subtotal r, tax r, map_option fa_value (total_fld r)))
        (normalize example_lib ''1.0.0'' 0 example_output_b ''vendor_b'' ''v1'')
       = Inr (None, None, Some (PFloat 108))"
    by (simp add: normalize_eval example_output_b_def)
  from w t1 t2 f1 f2 1 2 3 show ?thesis by blast
qed

text \<open>
  C5. The result of \<open>validate\<close> has \<open>passed\<close> true exactly when its list of errors is
  empty, whatever warnings it holds; and \<open>validate\<close> returns a result exactly on the
  records that are \<open>validate_ready\<close>.
\<close>

theorem validate_passed_iff_no_errors:
  "(\<forall>r. validate L V invoice = Inr r \<longrightarrow> passed r = (errors r = []))
   \<and> ((\<exists>r. validate L V invoice = Inr r) \<longleftrightarrow> validate_ready L V invoice)"
  using validate_passed validate_returns validate_Inr_ready by blast

theorem validate_passed_iff_no_errors_witness:
  "validate_ready example_lib default_validator ((example_invoice 250108)\<lparr>subtotal := Some (audit_of (PFloat 250100) 0.75), po_number := None\<rparr>)
   \<and> validate example_lib default_validator ((example_invoice 250108)\<lparr>subtotal := Some (audit_of (PFloat 250100) 0.75), po_number := None\<rparr>)
       = Inr \<lparr>passed = True,
              checks =
                [(''required_fields_present'', True), (''date_format_valid'', True),
                 (''currency_valid'', True), (''reconciliation_pass'', True),
                 (''total_within_threshold'', False), (''po_present'', False)],
              errors = [],
              warnings = [High_total_amount 250108 100000, PO_number_missing]\<rparr>
   \<and> validate example_lib default_validator (example_invoice (round_double 108.02))
       = Inr \<lparr>passed = False,
              checks =
                [(''required_fields_present'', True), (''date_format_valid'', True),
                 (''currency_valid'', True), (''reconciliation_pass'', False),
                 (''total_within_threshold'', True), (''po_present'', True)],
              errors = [Reconciliation_failed 100 8 108 (round_double 108.02) 0.02
                          (round_double 0.01)],
              warnings = []\<rparr>"
proof -
  let ?inv = "(example_invoice 250108)\<lparr>subtotal := Some (audit_of (PFloat 250100) 0.75), po_number := None\<rparr>"
  have 1: "validate example_lib default_validator ?inv
       = Inr \<lparr>passed = True,
              checks =
                [(''required_fields_present'', True), (''date_format_valid'', True),
                 (''currency_valid'', True), (''reconciliation_pass'', True),
                 (''total_within_threshold'', False), (''po_present'', False)],
              errors = [],
              warnings = [High_total_amount 250108 100000, PO_number_missing]\<rparr>"
    by (simp add: validate_eval) ((simp add: float_eval)?)
  have 2: "validate example_lib default_validator (example_invoice (round_double 108.02))
       = Inr \<lparr>passed = False,
              checks =
                [(''required_fields_present'', True), (''date_format_valid'', True),
                 (''currency_valid'', True), (''reconciliation_pass'', False),
                 (''total_within_threshold'', True), (''po_present'', True)],
              errors = [Reconciliation_failed 100 8 108 (round_double 108.02) 0.02
                          (round_double 0.01)],
              warnings = []\<rparr>"
    by (simp add: validate_eval) ((simp add: float_eval)?)
  have "validate_ready example_lib default_validator ?inv"
    using validate_passed_iff_no_errors [of example_lib default_validator ?inv] 1 by blast
  with 1 2 show ?thesis by simp
qed

text \<open>
  C6. The reconciliation check returns true, with the errors unchanged, when the
  subtotal, tax or total slot is absent. Otherwise, with \<open>a\<close>, \<open>b\<close>, \<open>c\<close> the floats
  of subtotal, tax and total (0.0 for a value that is missing or not truthy,
  \<^verbatim>\<open>float\<close> of the value otherwise), \<open>cur\<close> the upper-cased currency of the record
  (USD when the record has none) and \<open>tol\<close> the tolerance the validator's map gives
  \<open>cur\<close> (0.01 when the map has no entry for it), it computes the float sum of \<open>a\<close> and
  \<open>b\<close> and the absolute value of the float difference of that sum and \<open>c\<close>; it
  returns false, with one error that holds \<open>a\<close>, \<open>b\<close>, the sum, \<open>c\<close>, the difference
  with two decimals and \<open>tol\<close>, exactly when the difference exceeds \<open>tol\<close>. The check
  returns exactly on the records whose three values convert, and every tolerance of the
  default map is 0.01.
\<close>

theorem check_reconciliation_spec:
  "(subtotal invoice = None \<or> tax invoice = None \<or> total_fld invoice = None
      \<longrightarrow> check_reconciliation L V invoice errs = Inr (True, errs))
   \<and> (\<forall>s t tot a b c cur tol.
         subtotal invoice = Some s \<and> tax invoice = Some t \<and> total_fld invoice = Some tot
         \<and> float_or_zero L (fa_value s) = Inr a \<and> float_or_zero L (fa_value t) = Inr b
         \<and> float_or_zero L (fa_value tot) = Inr c
         \<and> cur = (case currency invoice of
                     None \<Rightarrow> ''USD''
                   | Some fa \<Rightarrow>
                       if truthy (fa_value fa) then upper L (py_str L (fa_value fa))
                       else ''USD'')
         \<and> tol = (case map_of (currency_tolerance V) cur of
                     Some x \<Rightarrow> x
                   | None \<Rightarrow> round_double 0.01)
         \<longrightarrow> check_reconciliation L V invoice errs =
               (if \<bar>fl_sub (fl_add a b) c\<bar> > tol
                then Inr (False,
                       errs @ [Reconciliation_failed a b (fl_add a b) c
                                 (format_2f \<bar>fl_sub (fl_add a b) c\<bar>) tol])
                else Inr (True, errs)))
   \<and> (\<forall>v. \<not> truthy v \<longrightarrow> float_or_zero L v = Inr 0)
   \<and> (\<forall>v. truthy v \<longrightarrow> float_or_zero L v = py_float L v)
   \<and> ((\<exists>r. check_reconciliation L V invoice errs = Inr r) \<longleftrightarrow> reconciliation_ready L invoice)
   \<and> currency_tolerance default_validator
       = [(''USD'', round_double 0.01), (''EUR'', round_double 0.01),
          (''GBP'', round_double 0.01)]"
proof (intro conjI)
  show "subtotal invoice = None \<or> tax invoice = None \<or> total_fld invoice = None
      \<longrightarrow> check_reconciliation L V invoice errs = Inr (True, errs)"
    by (auto simp: check_reconciliation_def split: option.splits)
next
  show "\<forall>s t tot a b c cur tol.
         subtotal invoice = Some s \<and> tax invoice = Some t \<and> total_fld invoice = Some tot
         \<and> float_or_zero L (fa_value s) = Inr a \<and> float_or_zero L (fa_value t) = Inr b
         \<and> float_or_zero L (fa_value tot) = Inr c
         \<and> cur = (case currency invoice of
                     None \<Rightarrow> ''USD''
                   | Some fa \<Rightarrow>
                       if truthy (fa_value fa) then upper L (py_str L (fa_value fa))
                       else ''USD'')
         \<and> tol = (case map_of (currency_tolerance V) cur of
                     Some x \<Rightarrow> x
                   | None \<Rightarrow> round_double 0.01)
         \<longrightarrow> check_reconciliation L V invoice errs =
               (if \<bar>fl_sub (fl_add a b) c\<bar> > tol
                then Inr (False,
                       errs @ [Reconciliation_failed a b (fl_add a b) c
                                 (format_2f \<bar>fl_sub (fl_add a b) c\<bar>) tol])
                else Inr (True, errs))"
  proof (intro allI impI)
    fix s t tot a b c cur tol
    assume h: "subtotal invoice = Some s \<and> tax invoice = Some t \<and> total_fld invoice = Some tot
         \<and> float_or_zero L (fa_value s) = Inr a \<and> float_or_zero L (fa_value t) = Inr b
         \<and> float_or_zero L (fa_value tot) = Inr c
         \<and> cur = (case currency invoice of
                     None \<Rightarrow> ''USD''
                   | Some fa \<Rightarrow>
                       if truthy (fa_value fa) then upper L (py_str L (fa_value fa))
                       else ''USD'')
         \<and> tol = (case map_of (currency_tolerance V) cur of
                     Some x \<Rightarrow> x
                   | None \<Rightarrow> round_double 0.01)"
    from h have sl: "subtotal invoice = Some s" "tax invoice = Some t"
        "total_fld invoice = Some tot"
      and fl: "float_or_zero L (fa_value s) = Inr a" "float_or_zero L (fa_value t) = Inr b"
        "float_or_zero L (fa_value tot) = Inr c"
      by simp_all
    have cur: "reconciliation_currency L invoice = cur"
      using h by (simp add: reconciliation_currency_def)
    have tol: "tolerance_for V cur = tol" using h by (simp add: tolerance_for_def)
    show "check_reconciliation L V invoice errs =
               (if \<bar>fl_sub (fl_add a b) c\<bar> > tol
                then Inr (False,
                       errs @ [Reconciliation_failed a b (fl_add a b) c
                                 (format_2f \<bar>fl_sub (fl_add a b) c\<bar>) tol])
                else Inr (True, errs))"
      by (simp add: check_reconciliation_def sl fl cur tol Let_def)
  qed
next
  show "\<forall>v. \<not> truthy v \<longrightarrow> float_or_zero L v = Inr 0" by (simp add: float_or_zero_def)
next
  show "\<forall>v. truthy v \<longrightarrow> float_or_zero L v = py_float L v" by (simp add: float_or_zero_def)
next
  show "(\<exists>r. check_reconciliation L V invoice errs = Inr r) \<longleftrightarrow> reconciliation_ready L invoice"
    using check_reconciliation_returns check_reconciliation_Inr by blast
next
  show "currency_tolerance default_validator
       = [(''USD'', round_double 0.01), (''EUR'', round_double 0.01),
          (''GBP'', round_double 0.01)]"
    by (simp add: default_validator_def Validator_def)
qed

theorem check_reconciliation_spec_witness:
  "check_reconciliation example_lib default_validator (example_invoice 108) [] = Inr (True, [])
   \<and> check_reconciliation example_lib default_validator (example_invoice (round_double 108.02)) []
       = Inr (False,
              [Reconciliation_failed 100 8 108 (round_double 108.02) 0.02 (round_double 0.01)])
   \<and> check_reconciliation example_lib default_validator
        ((example_invoice 108)\<lparr>tax := Some (audit_of (PFloat (round_double 8.01)) 0.75)\<rparr>) []
       = Inr (False,
              [Reconciliation_failed 100 (round_double 8.01) (round_double 108.01) 108 0.01
                 (round_double 0.01)])
   \<and> \<bar>(100 + round_double 8.01) - 108\<bar> < round_double 0.01
   \<and> check_reconciliation example_lib euro_validator
        ((example_invoice (round_double 108.02))\<lparr>currency := Some (audit_of (PStr ''eur'') 1)\<rparr>) []
       = Inr (True, [])
   \<and> check_reconciliation example_lib default_validator
        ((example_invoice (round_double 108.02))\<lparr>currency := Some (audit_of (PStr ''eur'') 1)\<rparr>) []
       = Inr (False,
              [Reconciliation_failed 100 8 108 (round_double 108.02) 0.02 (round_double 0.01)])
   \<and> check_reconciliation example_lib euro_validator (example_invoice (round_double 108.02)) []
       = Inr (False,
              [Reconciliation_failed 100 8 108 (round_double 108.02) 0.02 (round_double 0.01)])
   \<and> check_reconciliation example_lib default_validator
        ((example_invoice (round_double 108.02))\<lparr>tax := None\<rparr>) [] = Inr (True, [])
   \<and> check_reconciliation example_lib default_validator
        ((example_invoice 100)\<lparr>tax := Some (audit_of PNone 0.75),
                                currency := Some (audit_of (PStr ''chf'') 0.75)\<rparr>) []
       = Inr (True, [])
   \<and> \<not> reconciliation_ready example_lib
          ((example_invoice 108)\<lparr>total_fld := Some (audit_of (PStr ''abc'') 1)\<rparr>)
   \<and> check_reconciliation example_lib default_validator
        ((example_invoice 108)\<lparr>total_fld := Some (audit_of (PStr ''abc'') 1)\<rparr>) []
       = Inl ValueError"
proof -
  have pre: "subtotal (example_invoice t) = Some (audit_of (PFloat 100) 0.75)
      \<and> tax (example_invoice t) = Some (audit_of (PFloat 8) 0.75)
      \<and> total_fld (example_invoice t) = Some (audit_of (PFloat t) 1)
      \<and> float_or_zero example_lib (fa_value (audit_of (PFloat 100) 0.75)) = Inr 100
      \<and> float_or_zero example_lib (fa_value (audit_of (PFloat 8) 0.75)) = Inr 8
      \<and> float_or_zero example_lib (fa_value (audit_of (PFloat t) 1)) = Inr t
      \<and> ''USD'' = (case currency (example_invoice t) of
                     None \<Rightarrow> ''USD''
                   | Some fa \<Rightarrow>
                       if truthy (fa_value fa)
                       then upper example_lib (py_str example_lib (fa_value fa))
                       else ''USD'')
      \<and> round_double 0.01 = (case map_of (currency_tolerance default_validator) ''USD'' of
                     Some x \<Rightarrow> x
                   | None \<Rightarrow> round_double 0.01)" if "t \<noteq> 0" for t
    using that
    by (simp add: example_invoice_def empty_invoice_def audit_of_def float_or_zero_def
          py_str_def upper_def is_ascii_def upper_char_def default_validator_def Validator_def)
  have nz: "(108::real) \<noteq> 0" "round_double 108.02 \<noteq> 0"
    by (simp_all add: float_eval)
  have 1: "check_reconciliation example_lib default_validator (example_invoice 108) []
             = Inr (True, [])"
    using check_reconciliation_spec [of "example_invoice 108" example_lib default_validator "[]",
        THEN conjunct2, THEN conjunct1, rule_format, OF pre [OF nz(1)]]
    by (simp add: float_eval)
  have 2: "check_reconciliation example_lib default_validator
        (example_invoice (round_double 108.02)) []
       = Inr (False,
              [Reconciliation_failed 100 8 108 (round_double 108.02) 0.02 (round_double 0.01)])"
    using check_reconciliation_spec [of "example_invoice (round_double 108.02)" example_lib
        default_validator "[]", THEN conjunct2, THEN conjunct1, rule_format, OF pre [OF nz(2)]]
    by (simp add: float_eval)
  have 3: "check_reconciliation example_lib default_validator
        ((example_invoice 108)\<lparr>tax := Some (audit_of (PFloat (round_double 8.01)) 0.75)\<rparr>) []
       = Inr (False,
              [Reconciliation_failed 100 (round_double 8.01) (round_double 108.01) 108 0.01
                 (round_double 0.01)])"
    by (simp add: validate_eval) ((simp add: float_eval)?)
  have 30: "\<bar>(100 + round_double 8.01) - 108\<bar> < round_double 0.01"
    by (simp add: float_eval)
  have pre_eur: "subtotal ((example_invoice (round_double 108.02))
                     \<lparr>currency := Some (audit_of (PStr ''eur'') 1)\<rparr>)
        = Some (audit_of (PFloat 100) 0.75)
      \<and> tax ((example_invoice (round_double 108.02))
                     \<lparr>currency := Some (audit_of (PStr ''eur'') 1)\<rparr>)
        = Some (audit_of (PFloat 8) 0.75)
      \<and> total_fld ((example_invoice (round_double 108.02))
                     \<lparr>currency := Some (audit_of (PStr ''eur'') 1)\<rparr>)
        = Some (audit_of (PFloat (round_double 108.02)) 1)
      \<and> float_or_zero example_lib (fa_value (audit_of (PFloat 100) 0.75)) = Inr 100
      \<and> float_or_zero example_lib (fa_value (audit_of (PFloat 8) 0.75)) = Inr 8
      \<and> float_or_zero example_lib (fa_value (audit_of (PFloat (round_double 108.02)) 1))
          = Inr (round_double 108.02)
      \<and> ''EUR'' = (case currency ((example_invoice (round_double 108.02))
                     \<lparr>currency := Some (audit_of (PStr ''eur'') 1)\<rparr>) of
                     None \<Rightarrow> ''USD''
                   | Some fa \<Rightarrow>
                       if truthy (fa_value fa)
                       then upper example_lib (py_str example_lib (fa_value fa))
                       else ''USD'')
      \<and> round_double 0.05 = (case map_of (currency_tolerance euro_validator) ''EUR'' of
                     Some x \<Rightarrow> x
                   | None \<Rightarrow> round_double 0.01)"
    using nz(2)
    by (simp add: example_invoice_def empty_invoice_def audit_of_def float_or_zero_def
          py_str_def upper_def is_ascii_def upper_char_def euro_validator_def Validator_def)
  have 4: "check_reconciliation example_lib euro_validator
        ((example_invoice (round_double 108.02))\<lparr>currency := Some (audit_of (PStr ''eur'') 1)\<rparr>) []
       = Inr (True, [])"
    using check_reconciliation_spec [of "(example_invoice (round_double 108.02))
        \<lparr>currency := Some (audit_of (PStr ''eur'') 1)\<rparr>" example_lib euro_validator "[]",
        THEN conjunct2, THEN conjunct1, rule_format, OF pre_eur]
    by (simp add: float_eval)
  have 5: "check_reconciliation example_lib default_validator
        ((example_invoice (round_double 108.02))\<lparr>currency := Some (audit_of (PStr ''eur'') 1)\<rparr>) []
       = Inr (False,
              [Reconciliation_failed 100 8 108 (round_double 108.02) 0.02 (round_double 0.01)])"
    by (simp add: validate_eval) ((simp add: float_eval)?)
  have 6: "check_reconciliation example_lib euro_validator
        (example_invoice (round_double 108.02)) []
       = Inr (False,
              [Reconciliation_failed 100 8 108 (round_double 108.02) 0.02 (round_double 0.01)])"
    by (simp add: validate_eval euro_validator_def) ((simp add: float_eval)?)
  have 7: "check_reconciliation example_lib default_validator
        ((example_invoice (round_double 108.02))\<lparr>tax := None\<rparr>) [] = Inr (True, [])"
    using check_reconciliation_spec [of "(example_invoice (round_double 108.02))\<lparr>tax := None\<rparr>"
        example_lib default_validator "[]", THEN conjunct1]
    by simp
  have 8: "check_reconciliation example_lib default_validator
        ((example_invoice 100)\<lparr>tax := Some (audit_of PNone 0.75),
                                currency := Some (audit_of (PStr ''chf'') 0.75)\<rparr>) []
       = Inr (True, [])"
    by (simp add: validate_eval) ((simp add: float_eval)?)
  have 9: "check_reconciliation example_lib default_validator
        ((example_invoice 108)\<lparr>total_fld := Some (audit_of (PStr ''abc'') 1)\<rparr>) []
       = Inl ValueError"
    by (simp add: validate_eval decimal_of_str_def) ((simp add: float_eval)?)
  have 10: "\<not> reconciliation_ready example_lib
          ((example_invoice 108)\<lparr>total_fld := Some (audit_of (PStr ''abc'') 1)\<rparr>)"
    using check_reconciliation_spec [of "(example_invoice 108)
        \<lparr>total_fld := Some (audit_of (PStr ''abc'') 1)\<rparr>" example_lib default_validator "[]",
        THEN conjunct2, THEN conjunct2, THEN conjunct2, THEN conjunct2, THEN conjunct1] 9
    by simp
  from 1 2 3 30 4 5 6 7 8 9 10 show ?thesis by simp
qed




text \<open>
  C8 (as the spec states it). The spec says that total_within_threshold is the only
  check whose false outcome does not imply a hard error. The check po_present is another:
  on a record without a PO number it is false, there is no error and \<open>passed\<close> is true.
\<close>

theorem po_present_fails_without_error:
  "validate example_lib default_validator invoice_without_po
     = Inr \<lparr>passed = True,
            checks =
              [(''required_fields_present'', True), (''date_format_valid'', True),
               (''currency_valid'', True), (''reconciliation_pass'', True),
               (''total_within_threshold'', True), (''po_present'', False)],
            errors = [],
            warnings = [PO_number_missing]\<rparr>"
  by (simp add: validate_eval invoice_without_po_def) ((simp add: float_eval)?)

text \<open>
  C8 (amended). The threshold check returns true when the total slot or its value is
  absent; otherwise, with \<open>t\<close> the number of the total, it returns false with one more
  warning exactly when \<open>t\<close> exceeds \<open>high_total_threshold\<close>. The threshold has no effect
  on \<open>passed\<close> and on the errors of \<open>validate\<close>, and a false outcome of any of the four
  checks required_fields_present, date_format_valid, currency_valid and
  reconciliation_pass makes \<open>passed\<close> false.
\<close>

theorem total_threshold_is_soft:
  "(total_fld invoice = None \<longrightarrow> check_total_threshold L V invoice warns = Inr (True, warns))
   \<and> (\<forall>fa. total_fld invoice = Some fa \<and> fa_value fa = PNone
         \<longrightarrow> check_total_threshold L V invoice warns = Inr (True, warns))
   \<and> (\<forall>fa t. total_fld invoice = Some fa \<and> fa_value fa \<noteq> PNone \<and> py_float L (fa_value fa) = Inr t
         \<longrightarrow> check_total_threshold L V invoice warns =
               (if t > high_total_threshold V
                then Inr (False, warns @ [High_total_amount t (high_total_threshold V)])
                else Inr (True, warns)))
   \<and> map_sum id (\<lambda>r. (passed r, errors r)) (validate L (V\<lparr>high_total_threshold := h\<rparr>) invoice)
       = map_sum id (\<lambda>r. (passed r, errors r)) (validate L V invoice)
   \<and> (\<forall>r n. validate L V invoice = Inr r
          \<and> n \<in> set [''required_fields_present'', ''date_format_valid'', ''currency_valid'',
                      ''reconciliation_pass'']
          \<and> map_of (checks r) n = Some False
         \<longrightarrow> \<not> passed r)"
proof (intro conjI allI impI)
  assume "total_fld invoice = None"
  then show "check_total_threshold L V invoice warns = Inr (True, warns)"
    by (simp add: check_total_threshold_def)
next
  fix fa assume "total_fld invoice = Some fa \<and> fa_value fa = PNone"
  then show "check_total_threshold L V invoice warns = Inr (True, warns)"
    by (simp add: check_total_threshold_def)
next
  fix fa t
  assume "total_fld invoice = Some fa \<and> fa_value fa \<noteq> PNone \<and> py_float L (fa_value fa) = Inr t"
  then show "check_total_threshold L V invoice warns =
               (if t > high_total_threshold V
                then Inr (False, warns @ [High_total_amount t (high_total_threshold V)])
                else Inr (True, warns))"
    by (simp add: check_total_threshold_def)
next
  show "map_sum id (\<lambda>r. (passed r, errors r)) (validate L (V\<lparr>high_total_threshold := h\<rparr>) invoice)
       = map_sum id (\<lambda>r. (passed r, errors r)) (validate L V invoice)"
    by (rule validate_threshold_indep)
next
  fix r n
  assume a: "validate L V invoice = Inr r
          \<and> n \<in> set [''required_fields_present'', ''date_format_valid'', ''currency_valid'',
                      ''reconciliation_pass'']
          \<and> map_of (checks r) n = Some False"
  then show "\<not> passed r" using validate_hard_checks [of L V invoice r n] by blast
qed

theorem total_threshold_is_soft_witness:
  "check_total_threshold example_lib default_validator
     ((example_invoice 250108)\<lparr>subtotal := Some (audit_of (PFloat 250100) 0.75)\<rparr>) []
     = Inr (False, [High_total_amount 250108 100000])
   \<and> validate example_lib default_validator
       ((example_invoice 250108)\<lparr>subtotal := Some (audit_of (PFloat 250100) 0.75)\<rparr>)
     = Inr \<lparr>passed = True,
            checks =
              [(''required_fields_present'', True), (''date_format_valid'', True),
               (''currency_valid'', True), (''reconciliation_pass'', True),
               (''total_within_threshold'', False), (''po_present'', True)],
            errors = [],
            warnings = [High_total_amount 250108 100000]\<rparr>
   \<and> check_total_threshold example_lib default_validator empty_invoice [] = Inr (True, [])
   \<and> check_total_threshold example_lib default_validator (example_invoice 100000) []
     = Inr (True, [])"
proof -
  let ?inv = "(example_invoice 250108)\<lparr>subtotal := Some (audit_of (PFloat 250100) 0.75)\<rparr>"
  have pre: "total_fld ?inv = Some (audit_of (PFloat 250108) 1)
      \<and> fa_value (audit_of (PFloat 250108) 1) \<noteq> PNone
      \<and> py_float example_lib (fa_value (audit_of (PFloat 250108) 1)) = Inr 250108"
    by (simp add: example_invoice_def empty_invoice_def audit_of_def)
  have 1: "check_total_threshold example_lib default_validator ?inv []
             = Inr (False, [High_total_amount 250108 100000])"
    using total_threshold_is_soft [where invoice = "?inv" and L = example_lib
        and V = default_validator and warns = "[]" and h = 0,
        THEN conjunct2, THEN conjunct2, THEN conjunct1, rule_format, OF pre]
    by (simp add: default_validator_def Validator_def)
  have 2: "validate example_lib default_validator ?inv
     = Inr \<lparr>passed = True,
            checks =
              [(''required_fields_present'', True), (''date_format_valid'', True),
               (''currency_valid'', True), (''reconciliation_pass'', True),
               (''total_within_threshold'', False), (''po_present'', True)],
            errors = [],
            warnings = [High_total_amount 250108 100000]\<rparr>"
    by (simp add: validate_eval) ((simp add: float_eval)?)
  have 3: "check_total_threshold example_lib default_validator empty_invoice [] = Inr (True, [])"
    by (simp add: threshold_eval) ((simp add: float_eval)?)
  have 4: "check_total_threshold example_lib default_validator (example_invoice 100000) []
     = Inr (True, [])"
    by (simp add: threshold_eval) ((simp add: float_eval)?)
  from 1 2 3 4 show ?thesis by simp
qed

text \<open>
  C9. Two runs of \<open>normalize\<close> on the same arguments, at the clock values \<open>t1\<close> and
  \<open>t2\<close>, raise the same error or return records that differ in
  \<open>extraction_timestamp\<close> only: the nine slots, the line items and the other metadata
  agree.
\<close>

theorem normalize_same_up_to_timestamp:
  "normalize L pv t2 output vn vv =
     map_sum id (\<lambda>r. r\<lparr>extraction_timestamp := t2\<rparr>) (normalize L pv t1 output vn vv)
   \<and> (\<forall>r1 r2. normalize L pv t1 output vn vv = Inr r1 \<and> normalize L pv t2 output vn vv = Inr r2
        \<longrightarrow> invoice_number r2 = invoice_number r1 \<and> invoice_date r2 = invoice_date r1
            \<and> supplier_name r2 = supplier_name r1 \<and> supplier_id r2 = supplier_id r1
            \<and> currency r2 = currency r1 \<and> subtotal r2 = subtotal r1 \<and> tax r2 = tax r1
            \<and> total_fld r2 = total_fld r1 \<and> po_number r2 = po_number r1
            \<and> line_items r2 = line_items r1 \<and> doc_id r2 = doc_id r1
            \<and> vendor_name r2 = vendor_name r1 \<and> raw_vendor_output r2 = raw_vendor_output r1
            \<and> extraction_timestamp r2 = t2)"
proof (rule conjI)
  show "normalize L pv t2 output vn vv =
     map_sum id (\<lambda>r. r\<lparr>extraction_timestamp := t2\<rparr>) (normalize L pv t1 output vn vv)"
    by (rule normalize_clock)
next
  show "\<forall>r1 r2. normalize L pv t1 output vn vv = Inr r1 \<and> normalize L pv t2 output vn vv = Inr r2
        \<longrightarrow> invoice_number r2 = invoice_number r1 \<and> invoice_date r2 = invoice_date r1
            \<and> supplier_name r2 = supplier_name r1 \<and> supplier_id r2 = supplier_id r1
            \<and> currency r2 = currency r1 \<and> subtotal r2 = subtotal r1 \<and> tax r2 = tax r1
            \<and> total_fld r2 = total_fld r1 \<and> po_number r2 = po_number r1
            \<and> line_items r2 = line_items r1 \<and> doc_id r2 = doc_id r1
            \<and> vendor_name r2 = vendor_name r1 \<and> raw_vendor_output r2 = raw_vendor_output r1
            \<and> extraction_timestamp r2 = t2"
  proof (intro allI impI)
    fix r1 r2
    assume a: "normalize L pv t1 output vn vv = Inr r1 \<and> normalize L pv t2 output vn vv = Inr r2"
    with normalize_clock [of L pv t2 "output" vn vv t1]
    have r2: "r2 = r1\<lparr>extraction_timestamp := t2\<rparr>" by simp
    show "invoice_number r2 = invoice_number r1 \<and> invoice_date r2 = invoice_date r1
            \<and> supplier_name r2 = supplier_name r1 \<and> supplier_id r2 = supplier_id r1
            \<and> currency r2 = currency r1 \<and> subtotal r2 = subtotal r1 \<and> tax r2 = tax r1
            \<and> total_fld r2 = total_fld r1 \<and> po_number r2 = po_number r1
            \<and> line_items r2 = line_items r1 \<and> doc_id r2 = doc_id r1
            \<and> vendor_name r2 = vendor_name r1 \<and> raw_vendor_output r2 = raw_vendor_output r1
            \<and> extraction_timestamp r2 = t2"
      unfolding r2 by simp
  qed
qed

theorem normalize_same_up_to_timestamp_witness:
  "normalize example_lib ''1.0.0'' 1700000000 bad_confidence_output ''vendor_a'' ''v1''
     = normalize example_lib ''1.0.0'' 0 bad_confidence_output ''vendor_a'' ''v1''
   \<and> (\<exists>r1 r2. normalize example_lib ''1.0.0'' 0 example_output_a ''vendor_a'' ''v1'' = Inr r1
         \<and> normalize example_lib ''1.0.0'' 1700000000 example_output_a ''vendor_a'' ''v1'' = Inr r2
         \<and> total_fld r2 = total_fld r1 \<and> extraction_timestamp r1 = 0
         \<and> extraction_timestamp r2 = 1700000000)"
proof -
  have e: "normalize example_lib ''1.0.0'' 0 bad_confidence_output ''vendor_a'' ''v1''
             = Inl ValidationError"
    by (simp add: normalize_eval bad_confidence_output_def)
  have 1: "normalize example_lib ''1.0.0'' 1700000000 bad_confidence_output ''vendor_a'' ''v1''
     = normalize example_lib ''1.0.0'' 0 bad_confidence_output ''vendor_a'' ''v1''"
    using normalize_same_up_to_timestamp [of example_lib "''1.0.0''" 1700000000
        bad_confidence_output "''vendor_a''" "''v1''" 0, THEN conjunct1]
    by (simp add: e)
  have w: "wf_vendor_output example_lib ''vendor_a'' example_output_a"
    by (simp add: wf_eval example_output_a_def)
  from normalize_wf [OF w, of "''1.0.0''" 0 "''v1''"] obtain r1 where
    r1: "normalize example_lib ''1.0.0'' 0 example_output_a ''vendor_a'' ''v1'' = Inr r1"
    by blast
  from normalize_wf [OF w, of "''1.0.0''" 1700000000 "''v1''"] obtain r2 where
    r2: "normalize example_lib ''1.0.0'' 1700000000 example_output_a ''vendor_a'' ''v1'' = Inr r2"
    by blast
  from normalize_same_up_to_timestamp [of example_lib "''1.0.0''" 1700000000
        example_output_a "''vendor_a''" "''v1''" 0, THEN conjunct2, rule_format, of r1 r2] r1 r2
  have a: "total_fld r2 = total_fld r1" and b: "extraction_timestamp r2 = 1700000000"
    by simp_all
  from normalize_same_up_to_timestamp [of example_lib "''1.0.0''" 0
        example_output_a "''vendor_a''" "''v1''" 0, THEN conjunct2, rule_format, of r1 r1] r1
  have c: "extraction_timestamp r1 = 0" by simp
  from 1 r1 r2 a b c show ?thesis by blast
qed

text \<open>
  C10. On a record whose confidences all lie in [0, 1], \<open>route\<close> returns a
  decision (the bounds check of \<^verbatim>\<open>RoutingDecision\<close> does not fail) whose confidence
  score lies in [0, 1].
\<close>

theorem route_confidence_in_unit_interval:
  assumes "invoice_ok invoice"
  shows "\<exists>d. route L V invoice validation = Inr d
           \<and> 0 \<le> confidence_score d \<and> confidence_score d \<le> 1"
  using route_returns [OF assms, of L V validation] critical_score_bounds [OF assms] by simp

theorem route_confidence_in_unit_interval_witness:
  "invoice_ok ((example_invoice 108)\<lparr>invoice_number := Some (audit_of (PStr ''A-17'') 1),
                 total_fld := Some (audit_of (PFloat 108) 1),
                 invoice_date := Some (audit_of (PStr ''2024-01-15'') 1)\<rparr>)
   \<and> route example_lib default_validator
        ((example_invoice 108)\<lparr>invoice_number := Some (audit_of (PStr ''A-17'') 1),
                 total_fld := Some (audit_of (PFloat 108) 1),
                 invoice_date := Some (audit_of (PStr ''2024-01-15'') 1)\<rparr>) all_passed
       = Inr \<lparr>outcome = ''AUTO_POST'', reason_codes = [], confidence_score = 1\<rparr>"
proof -
  let ?inv = "(example_invoice 108)\<lparr>invoice_number := Some (audit_of (PStr ''A-17'') 1),
                 total_fld := Some (audit_of (PFloat 108) 1),
                 invoice_date := Some (audit_of (PStr ''2024-01-15'') 1)\<rparr>"
  have a: "invoice_ok ?inv" by (simp add: invoice_ok_eval)
  have "route example_lib default_validator ?inv all_passed
       = Inr \<lparr>outcome = ''AUTO_POST'', reason_codes = [], confidence_score = 1\<rparr>"
    using route_confidence_in_unit_interval [OF a, of example_lib default_validator all_passed]
    by (simp add: route_eval) ((simp add: float_eval)?)
  with a show ?thesis by simp
qed

end
